theory Spec2Isabelle
  imports Main "HOL-Library.Signed_Division"
begin

section \<open>Integers, errors and undefined behaviour\<close>

text \<open>
  \<open>mint\<close> is the host's machine integer. Every index computed below stays between
  zero and the size of a buffer that exists, so no operation on it can wrap; it is
  modelled by the mathematical integers.
\<close>

type_synonym mint = int

text \<open>
  The default exit code of a \<open>LibraryError\<close>, a constant of \<open>WolframLibrary.h\<close>. The
  header is not part of the repository; no result below depends on the number.
\<close>

definition LIBRARY_FUNCTION_ERROR :: int where
  "LIBRARY_FUNCTION_ERROR = 6"

text \<open>\<open>class LibraryError\<close>: an optional message and an exit code.\<close>

datatype LibraryError =
  LibraryError (message: string) (has_message: bool) (error_code: int)

definition LibraryError_code :: "int \<Rightarrow> LibraryError" where
  "LibraryError_code err = LibraryError [] False err"

definition LibraryError_msg :: "string \<Rightarrow> int \<Rightarrow> LibraryError" where
  "LibraryError_msg s err = LibraryError s True err"

text \<open>
  A call ends in one of three ways: it returns, it throws a \<open>LibraryError\<close>, or it
  does something C++ leaves undefined (a read or write outside a buffer, the use of
  a handle that is not live, falling off the end of a value-returning function).
\<close>

datatype failure = Thrown LibraryError | UndefinedBehaviour

definition throw_msg :: "string \<Rightarrow> failure + 'a" where
  "throw_msg s = Inl (Thrown (LibraryError_msg s LIBRARY_FUNCTION_ERROR))"

definition throw_err :: "string \<Rightarrow> int \<Rightarrow> failure + 'a" where
  "throw_err s err = Inl (Thrown (LibraryError_msg s err))"

text \<open>
  \<open>massert(condition)\<close> without \<open>NDEBUG\<close>: a failed condition throws the message-less
  \<open>LibraryError()\<close> of \<open>massert_impl\<close>.
\<close>

definition massert :: "bool \<Rightarrow> failure + unit" where
  "massert condition =
     (if condition then Inr () else Inl (Thrown (LibraryError_code LIBRARY_FUNCTION_ERROR)))"

section \<open>The host array runtime\<close>

text \<open>
  Handles are addresses of host objects; \<open>NULL\<close> is \<open>None\<close> of an option.
\<close>

type_synonym MTensor = nat
type_synonym MSparseArray = nat

text \<open>
  A host tensor holds either integers or elements of the type \<open>T\<close> of the view
  (\<open>'a\<close> here): \<open>getData<mint>\<close> reads the first kind, \<open>getData<T>\<close> the second.
\<close>

datatype mtype = MType_Integer | MType_Element

datatype 'a mdata = IntegerData "mint list" | ElementData "'a list"

record 'a tensor_obj =
  tensor_rank :: mint
  tensor_dims :: "mint list"
  tensor_elems :: "'a mdata"

text \<open>The four CSR components of a host sparse array, each a pointer to a tensor.\<close>

record sparse_obj =
  sp_rowPointers :: "MTensor option"
  sp_columnIndices :: "MTensor option"
  sp_explicitValues :: "MTensor option"
  sp_implicitValue :: "MTensor option"
  sp_rank :: mint
  sp_dims :: "mint list"

text \<open>
  Modelled from the spec: the host array runtime of section 6, which is not part of
  the repository. The state is the store of live tensors and sparse arrays, the next
  fresh address, and \<open>pending_errors\<close>, the return codes that the coming calls of
  \<open>MTensor_new\<close> will give (none left: success), so that a theorem about every state
  is a theorem about every pattern of allocation failures.
\<close>

record 'a host =
  tensors :: "MTensor \<rightharpoonup> 'a tensor_obj"
  sparse_arrays :: "MSparseArray \<rightharpoonup> sparse_obj"
  next_handle :: nat
  pending_errors :: "int list"

definition zeros :: "mtype \<Rightarrow> nat \<Rightarrow> ('a::zero) mdata" where
  "zeros ty n = (case ty of MType_Integer \<Rightarrow> IntegerData (replicate n 0)
                          | MType_Element \<Rightarrow> ElementData (replicate n 0))"

text \<open>
  Modelled from the spec: \<open>new(kind, rank, dims) -> handle|error\<close>. A failed call
  leaves the result pointer as it was; that is \<open>None\<close> in the second component.
\<close>

definition MTensor_new ::
  "mtype \<Rightarrow> mint \<Rightarrow> mint list \<Rightarrow> ('a::zero) host \<Rightarrow> int \<times> MTensor option \<times> 'a host" where
  "MTensor_new ty rnk dims h =
     (let err = (case pending_errors h of [] \<Rightarrow> 0 | e # _ \<Rightarrow> e);
          h1 = h\<lparr>pending_errors := tl (pending_errors h)\<rparr>
      in if err \<noteq> 0 then (err, None, h1)
         else (0, Some (next_handle h),
               h1\<lparr>tensors := (tensors h)(next_handle h \<mapsto>
                      \<lparr>tensor_rank = rnk, tensor_dims = dims,
                       tensor_elems = zeros ty (nat (prod_list dims))\<rparr>),
                   next_handle := Suc (next_handle h)\<rparr>))"

text \<open>Modelled from the spec: \<open>free(handle)\<close>.\<close>

definition MTensor_free :: "MTensor \<Rightarrow> 'a host \<Rightarrow> 'a host" where
  "MTensor_free mt h = h\<lparr>tensors := (tensors h)(mt := None)\<rparr>"

definition MTensor_getRank :: "'a host \<Rightarrow> MTensor \<Rightarrow> failure + mint" where
  "MTensor_getRank h mt =
     (case tensors h mt of None \<Rightarrow> Inl UndefinedBehaviour | Some obj \<Rightarrow> Inr (tensor_rank obj))"

definition MTensor_getDimensions :: "'a host \<Rightarrow> MTensor \<Rightarrow> failure + mint list" where
  "MTensor_getDimensions h mt =
     (case tensors h mt of None \<Rightarrow> Inl UndefinedBehaviour | Some obj \<Rightarrow> Inr (tensor_dims obj))"

definition MTensor_getFlattenedLength :: "'a host \<Rightarrow> MTensor \<Rightarrow> failure + mint" where
  "MTensor_getFlattenedLength h mt =
     (case tensors h mt of None \<Rightarrow> Inl UndefinedBehaviour
      | Some obj \<Rightarrow> Inr (prod_list (tensor_dims obj)))"

text \<open>\<open>detail::getData<mint>\<close> and \<open>detail::getData<T>\<close>.\<close>

definition getData_mint :: "'a host \<Rightarrow> MTensor \<Rightarrow> failure + mint list" where
  "getData_mint h mt =
     (case tensors h mt of None \<Rightarrow> Inl UndefinedBehaviour
      | Some obj \<Rightarrow> (case tensor_elems obj of IntegerData xs \<Rightarrow> Inr xs
                                            | ElementData _ \<Rightarrow> Inl UndefinedBehaviour))"

definition getData_T :: "'a host \<Rightarrow> MTensor \<Rightarrow> failure + 'a list" where
  "getData_T h mt =
     (case tensors h mt of None \<Rightarrow> Inl UndefinedBehaviour
      | Some obj \<Rightarrow> (case tensor_elems obj of ElementData xs \<Rightarrow> Inr xs
                                            | IntegerData _ \<Rightarrow> Inl UndefinedBehaviour))"

section \<open>Dense views\<close>

text \<open>
  \<open>class TensorRef<T>\<close>: the handle \<open>t\<close> (field \<open>tensor\<close>, after its accessor), the
  cached data pointer and the cached length. The pointer is modelled by the buffer it
  points to, read when the handle is wrapped; a write through the pointer updates the
  host's buffer and the view's together.
\<close>

record 'a TensorRef =
  tensor :: "MTensor option"
  tensor_data :: "'a list"
  len :: mint

text \<open>The private default constructor: the null \<open>TensorRef\<close> of a pattern array.\<close>

definition TensorRef_null :: "'a TensorRef" where
  "TensorRef_null = \<lparr>tensor = None, tensor_data = [], len = 0\<rparr>"

definition nullQ :: "('a, 'b) TensorRef_scheme \<Rightarrow> bool" where
  "nullQ tr = (tensor tr = None)"

text \<open>\<open>TensorRef(const MTensor &mt)\<close> for \<open>T = mint\<close> and for the element type.\<close>

definition TensorRef_mint :: "'a host \<Rightarrow> MTensor \<Rightarrow> failure + mint TensorRef" where
  "TensorRef_mint h mt =
     (case getData_mint h mt of Inl e \<Rightarrow> Inl e
      | Inr xs \<Rightarrow> (case MTensor_getFlattenedLength h mt of Inl e \<Rightarrow> Inl e
                  | Inr n \<Rightarrow> Inr \<lparr>tensor = Some mt, tensor_data = xs, len = n\<rparr>))"

definition TensorRef_T :: "'a host \<Rightarrow> MTensor \<Rightarrow> failure + 'a TensorRef" where
  "TensorRef_T h mt =
     (case getData_T h mt of Inl e \<Rightarrow> Inl e
      | Inr xs \<Rightarrow> (case MTensor_getFlattenedLength h mt of Inl e \<Rightarrow> Inl e
                  | Inr n \<Rightarrow> Inr \<lparr>tensor = Some mt, tensor_data = xs, len = n\<rparr>))"

definition TensorRef_length :: "('a, 'b) TensorRef_scheme \<Rightarrow> mint" where
  "TensorRef_length tr = len tr"

definition TensorRef_size :: "('a, 'b) TensorRef_scheme \<Rightarrow> mint" where
  "TensorRef_size tr = TensorRef_length tr"

text \<open>\<open>rank()\<close> and \<open>dimensions()\<close> ask the host.\<close>

definition TensorRef_rank :: "'a host \<Rightarrow> ('b, 'c) TensorRef_scheme \<Rightarrow> failure + mint" where
  "TensorRef_rank h tr =
     (case tensor tr of None \<Rightarrow> Inl UndefinedBehaviour | Some mt \<Rightarrow> MTensor_getRank h mt)"

definition TensorRef_dimensions ::
  "'a host \<Rightarrow> ('b, 'c) TensorRef_scheme \<Rightarrow> failure + mint list" where
  "TensorRef_dimensions h tr =
     (case tensor tr of None \<Rightarrow> Inl UndefinedBehaviour | Some mt \<Rightarrow> MTensor_getDimensions h mt)"

text \<open>\<open>operator[]\<close>: \<open>tensor_data[i]\<close>, undefined outside the buffer.\<close>

definition at :: "('a, 'b) TensorRef_scheme \<Rightarrow> mint \<Rightarrow> failure + 'a" where
  "at tr i =
     (if 0 \<le> i \<and> i < int (length (tensor_data tr)) then Inr (tensor_data tr ! nat i)
      else Inl UndefinedBehaviour)"

text \<open>\<open>class MatrixRef<T> : public TensorRef<T>\<close>.\<close>

record 'a MatrixRef = "'a TensorRef" +
  nrows :: mint
  ncols :: mint

definition MatrixRef_ctor :: "'a host \<Rightarrow> 'b TensorRef \<Rightarrow> failure + 'b MatrixRef" where
  "MatrixRef_ctor h tr =
     (case TensorRef_rank h tr of Inl e \<Rightarrow> Inl e
      | Inr r \<Rightarrow>
          if r \<noteq> 2 then throw_msg ''MatrixRef: Matrix expected.''
          else (case TensorRef_dimensions h tr of Inl e \<Rightarrow> Inl e
                | Inr dims \<Rightarrow>
                    (case dims of
                       d0 # d1 # _ \<Rightarrow>
                         Inr \<lparr>tensor = tensor tr, tensor_data = tensor_data tr, len = len tr,
                              nrows = d0, ncols = d1\<rparr>
                     | _ \<Rightarrow> Inl UndefinedBehaviour)))"

definition MatrixRef_rows :: "'a MatrixRef \<Rightarrow> mint" where
  "MatrixRef_rows m = MatrixRef.nrows m"

definition MatrixRef_cols :: "'a MatrixRef \<Rightarrow> mint" where
  "MatrixRef_cols m = MatrixRef.ncols m"

text \<open>
  \<open>makeTensor<T>(std::initializer_list<mint> dims)\<close>; the element type is the tag
  \<open>ty\<close>. The handle it returns is wrapped by the caller's return type.
\<close>

definition makeTensor :: "mtype \<Rightarrow> mint list \<Rightarrow> ('a::zero) host \<Rightarrow> (failure + MTensor) \<times> 'a host" where
  "makeTensor ty dims h =
     (case MTensor_new ty (int (length dims)) dims h of
        (err, r, h1) \<Rightarrow>
          if err \<noteq> 0 then (throw_err ''MTensor_new() failed.'' err, h1)
          else (case r of None \<Rightarrow> (Inl UndefinedBehaviour, h1) | Some mt \<Rightarrow> (Inr mt, h1)))"

text \<open>
  \<open>makeMatrix<T>(mint nrow, mint ncol)\<close>: \<open>wrap\<close> and \<open>ty\<close> stand for the template
  argument, \<open>TensorRef_mint\<close> with \<open>MType_Integer\<close> or \<open>TensorRef_T\<close> with
  \<open>MType_Element\<close>.
\<close>

definition makeMatrix ::
  "('a host \<Rightarrow> MTensor \<Rightarrow> failure + 'b TensorRef) \<Rightarrow> mtype \<Rightarrow> mint \<Rightarrow> mint \<Rightarrow> ('a::zero) host
     \<Rightarrow> (failure + 'b MatrixRef) \<times> 'a host" where
  "makeMatrix wrap ty nrow ncol h =
     (case makeTensor ty [nrow, ncol] h of
        (Inl e, h1) \<Rightarrow> (Inl e, h1)
      | (Inr mt, h1) \<Rightarrow>
          (case wrap h1 mt of Inl e \<Rightarrow> (Inl e, h1)
           | Inr tr \<Rightarrow> (MatrixRef_ctor h1 tr, h1)))"

text \<open>
  The buffer of a live element tensor, replaced: what the writes \<open>*ptr = el\<close> of a
  factory leave in the host.
\<close>

definition store_T :: "MTensor option \<Rightarrow> 'a list \<Rightarrow> 'a host \<Rightarrow> 'a host" where
  "store_T t buf h =
     (case t of None \<Rightarrow> h
      | Some mt \<Rightarrow>
          (case tensors h mt of None \<Rightarrow> h
           | Some obj \<Rightarrow> h\<lparr>tensors := (tensors h)(mt \<mapsto> obj\<lparr>tensor_elems := ElementData buf\<rparr>)\<rparr>))"

text \<open>The inner loop of the nested-literal factory: \<open>*ptr = el; ptr++\<close>.\<close>

fun copy_row :: "'a list \<Rightarrow> nat \<Rightarrow> 'a list \<Rightarrow> (failure + nat) \<times> 'a list" where
  "copy_row [] ptr buf = (Inr ptr, buf)"
| "copy_row (el # row) ptr buf =
     (if ptr < length buf then copy_row row (Suc ptr) (buf[ptr := el])
      else (Inl UndefinedBehaviour, buf))"

text \<open>The outer loop, with its \<open>massert(row.size() == t.cols())\<close>.\<close>

fun copy_rows :: "'a list list \<Rightarrow> mint \<Rightarrow> nat \<Rightarrow> 'a list \<Rightarrow> (failure + nat) \<times> 'a list" where
  "copy_rows [] c ptr buf = (Inr ptr, buf)"
| "copy_rows (row # m) c ptr buf =
     (case massert (int (length row) = c) of
        Inl e \<Rightarrow> (Inl e, buf)
      | Inr _ \<Rightarrow>
          (case copy_row row ptr buf of
             (Inl e, buf1) \<Rightarrow> (Inl e, buf1)
           | (Inr ptr1, buf1) \<Rightarrow> copy_rows m c ptr1 buf1))"

text \<open>\<open>makeMatrix(std::initializer_list<std::initializer_list<T>> m)\<close>.\<close>

definition makeMatrix_list ::
  "'a list list \<Rightarrow> ('a::zero) host \<Rightarrow> (failure + 'a MatrixRef) \<times> 'a host" where
  "makeMatrix_list m h =
     (case makeMatrix TensorRef_T MType_Element (int (length m))
             (if m \<noteq> [] then int (length (hd m)) else 0) h of
        (Inl e, h1) \<Rightarrow> (Inl e, h1)
      | (Inr t, h1) \<Rightarrow>
          (case copy_rows m (MatrixRef_cols t) 0 (tensor_data t) of
             (r, buf) \<Rightarrow>
               (let h2 = store_T (tensor t) buf h1
                in case r of Inl e \<Rightarrow> (Inl e, h2)
                   | Inr _ \<Rightarrow> (Inr (t\<lparr>tensor_data := buf\<rparr>), h2))))"

section \<open>Sparse views\<close>

text \<open>\<open>class SparseArrayRef<T>\<close>.\<close>

record 'a SparseArrayRef =
  sa :: MSparseArray
  rp :: "mint TensorRef"
  ci :: "mint TensorRef"
  ev :: "'a TensorRef"
  iv :: 'a

text \<open>
  \<open>getExplicitValues\<close>: a host array with no explicit-values tensor gives the null
  \<open>TensorRef\<close>.
\<close>

definition getExplicitValues :: "'a host \<Rightarrow> sparse_obj \<Rightarrow> failure + 'a TensorRef" where
  "getExplicitValues h obj =
     (case sp_explicitValues obj of None \<Rightarrow> Inr TensorRef_null
      | Some mt \<Rightarrow> TensorRef_T h mt)"

text \<open>
  \<open>getColumnIndices\<close>: a host array with no column-index tensor gets an empty one of
  dimensions \<open>{0, rank}\<close>, stored into the host object; the return code of this
  \<open>MTensor_new\<close> is not looked at.
\<close>

definition getColumnIndices ::
  "MSparseArray \<Rightarrow> sparse_obj \<Rightarrow> ('a::zero) host \<Rightarrow> (failure + mint TensorRef) \<times> 'a host" where
  "getColumnIndices msa obj h =
     (case sp_columnIndices obj of
        Some c \<Rightarrow> (TensorRef_mint h c, h)
      | None \<Rightarrow>
          (case MTensor_new MType_Integer 2 [0, sp_rank obj] h of
             (err, r, h1) \<Rightarrow>
               (let h2 = h1\<lparr>sparse_arrays := (sparse_arrays h1)(msa \<mapsto> obj\<lparr>sp_columnIndices := r\<rparr>)\<rparr>
                in case r of None \<Rightarrow> (Inl UndefinedBehaviour, h2)
                   | Some c \<Rightarrow> (TensorRef_mint h2 c, h2))))"

definition getImplicitValue :: "'a host \<Rightarrow> sparse_obj \<Rightarrow> failure + 'a" where
  "getImplicitValue h obj =
     (case sp_implicitValue obj of None \<Rightarrow> Inl UndefinedBehaviour
      | Some mt \<Rightarrow>
          (case getData_T h mt of Inl e \<Rightarrow> Inl e
           | Inr xs \<Rightarrow> (case xs of [] \<Rightarrow> Inl UndefinedBehaviour | x # _ \<Rightarrow> Inr x)))"

text \<open>
  \<open>SparseArrayRef(const MSparseArray &msa)\<close>: the members are initialised in the
  order of their declaration.
\<close>

definition SparseArrayRef_ctor ::
  "MSparseArray \<Rightarrow> ('a::zero) host \<Rightarrow> (failure + 'a SparseArrayRef) \<times> 'a host" where
  "SparseArrayRef_ctor msa h =
     (case sparse_arrays h msa of None \<Rightarrow> (Inl UndefinedBehaviour, h)
      | Some obj \<Rightarrow>
          (case sp_rowPointers obj of None \<Rightarrow> (Inl UndefinedBehaviour, h)
           | Some r \<Rightarrow>
               (case TensorRef_mint h r of Inl e \<Rightarrow> (Inl e, h)
                | Inr rp' \<Rightarrow>
                    (case getColumnIndices msa obj h of
                       (Inl e, h1) \<Rightarrow> (Inl e, h1)
                     | (Inr ci', h1) \<Rightarrow>
                         (case getExplicitValues h1 obj of Inl e \<Rightarrow> (Inl e, h1)
                          | Inr ev' \<Rightarrow>
                              (case getImplicitValue h1 obj of Inl e \<Rightarrow> (Inl e, h1)
                               | Inr iv' \<Rightarrow>
                                   (Inr \<lparr>sa = msa, rp = rp', ci = ci', ev = ev', iv = iv'\<rparr>,
                                    h1)))))))"

definition SparseArrayRef_rank :: "'a host \<Rightarrow> ('a, 'b) SparseArrayRef_scheme \<Rightarrow> failure + mint" where
  "SparseArrayRef_rank h s =
     (case sparse_arrays h (sa s) of None \<Rightarrow> Inl UndefinedBehaviour
      | Some obj \<Rightarrow> Inr (sp_rank obj))"

definition SparseArrayRef_dimensions ::
  "'a host \<Rightarrow> ('a, 'b) SparseArrayRef_scheme \<Rightarrow> failure + mint list" where
  "SparseArrayRef_dimensions h s =
     (case sparse_arrays h (sa s) of None \<Rightarrow> Inl UndefinedBehaviour
      | Some obj \<Rightarrow> Inr (sp_dims obj))"

definition SparseArrayRef_length :: "('a, 'b) SparseArrayRef_scheme \<Rightarrow> mint" where
  "SparseArrayRef_length s = TensorRef_length (ci s)"

definition SparseArrayRef_size :: "('a, 'b) SparseArrayRef_scheme \<Rightarrow> mint" where
  "SparseArrayRef_size s = SparseArrayRef_length s"

definition explicitValuesQ :: "('a, 'b) SparseArrayRef_scheme \<Rightarrow> bool" where
  "explicitValuesQ s = (\<not> nullQ (ev s))"

definition explicitValues :: "('a, 'b) SparseArrayRef_scheme \<Rightarrow> failure + 'a TensorRef" where
  "explicitValues s =
     (if nullQ (ev s)
      then throw_msg ''SparseArrayRef::explicitValues() called on pattern array.''
      else Inr (ev s))"

definition implicitValue :: "('a, 'b) SparseArrayRef_scheme \<Rightarrow> 'a" where
  "implicitValue s = iv s"

text \<open>\<open>class SparseMatrixRef<T> : public SparseArrayRef<T>\<close>.\<close>

record 'a SparseMatrixRef = "'a SparseArrayRef" +
  ncols :: mint
  nrows :: mint

definition SparseMatrixRef_ctor ::
  "'a host \<Rightarrow> 'a SparseArrayRef \<Rightarrow> failure + 'a SparseMatrixRef" where
  "SparseMatrixRef_ctor h s =
     (case SparseArrayRef_rank h s of Inl e \<Rightarrow> Inl e
      | Inr r \<Rightarrow>
          if r \<noteq> 2 then throw_msg ''SparseMatrixRef: Matrix expected.''
          else (case SparseArrayRef_dimensions h s of Inl e \<Rightarrow> Inl e
                | Inr dims \<Rightarrow>
                    (case dims of
                       d0 # d1 # _ \<Rightarrow>
                         Inr \<lparr>sa = sa s, rp = rp s, ci = ci s, ev = ev s, iv = iv s,
                              ncols = d1, nrows = d0\<rparr>
                     | _ \<Rightarrow> Inl UndefinedBehaviour)))"

definition SparseMatrixRef_rows :: "'a SparseMatrixRef \<Rightarrow> mint" where
  "SparseMatrixRef_rows sm = SparseMatrixRef.nrows sm"

definition SparseMatrixRef_cols :: "'a SparseMatrixRef \<Rightarrow> mint" where
  "SparseMatrixRef_cols sm = SparseMatrixRef.ncols sm"

text \<open>
  \<open>std::lower_bound(first, last, val)\<close> of the C++ standard library, on the range of
  \<open>count\<close> elements of \<open>xs\<close> that starts at offset \<open>first\<close>: the bisection of the
  library, which halves the remaining count. The result is an offset into \<open>xs\<close>.
\<close>

function lower_bound :: "mint list \<Rightarrow> nat \<Rightarrow> nat \<Rightarrow> mint \<Rightarrow> nat" where
  "lower_bound xs first count val =
     (if 0 < count then
        (let half = count div 2; middle = first + half
         in if xs ! middle < val
            then lower_bound xs (middle + 1) (count - half - 1) val
            else lower_bound xs first half val)
      else first)"
  by pat_completeness auto
termination
  by (relation "measure (\<lambda>(xs, first, count, val). count)") auto

declare lower_bound.simps [simp del]

text \<open>
  \<open>T operator () (mint i, mint j) const\<close>. The pointers \<open>&ci[lower]\<close> and \<open>&ci[upper]\<close>
  must delimit a range inside the column-index buffer; \<open>cp\<close> is kept as an offset
  into that buffer, so \<open>lower + (cp - &ci[lower])\<close> is \<open>cp\<close> itself.
\<close>

definition SparseMatrixRef_index :: "'a SparseMatrixRef \<Rightarrow> mint \<Rightarrow> mint \<Rightarrow> failure + 'a" where
  "SparseMatrixRef_index sm i j =
     (if \<not> explicitValuesQ sm
      then throw_msg ''SparseMatrixRef: cannot index into a pattern array.''
      else
        (case at (rp sm) i of Inl e \<Rightarrow> Inl e | Inr lower \<Rightarrow>
        (case at (rp sm) (i + 1) of Inl e \<Rightarrow> Inl e | Inr upper \<Rightarrow>
           if 0 \<le> lower \<and> lower \<le> upper \<and> upper \<le> int (length (tensor_data (ci sm)))
           then
             (let cp = lower_bound (tensor_data (ci sm)) (nat lower) (nat upper - nat lower) (j + 1)
              in if cp = nat upper then Inr (iv sm)
                 else if tensor_data (ci sm) ! cp = j + 1
                 then at (ev sm) (lower + (int cp - lower))
                 else Inr (iv sm))
           else Inl UndefinedBehaviour)))"

text \<open>
  The read the specification compares with: scan the row's column-index sub-range
  from its first offset and return the explicit value at the first offset that holds
  the key \<open>j + 1\<close>, the implicit value when there is none.
\<close>

definition linear_scan_read :: "'a SparseMatrixRef \<Rightarrow> mint \<Rightarrow> mint \<Rightarrow> 'a" where
  "linear_scan_read sm i j =
     (let lower = nat (tensor_data (rp sm) ! nat i);
          upper = nat (tensor_data (rp sm) ! nat (i + 1))
      in case find (\<lambda>k. tensor_data (ci sm) ! k = j + 1) [lower..<upper] of
           None \<Rightarrow> iv sm
         | Some k \<Rightarrow> tensor_data (ev sm) ! k)"

text \<open>
  The CSR invariant of section 3 of the specification, for a 2-D view: \<open>rows + 1\<close>
  row pointers, starting at 0, non-decreasing, ending at the number of explicit
  entries; column indices ascending within each row; as many explicit values as
  column indices unless the array is a pattern array.
\<close>

definition row_slice :: "'a SparseMatrixRef \<Rightarrow> nat \<Rightarrow> mint list" where
  "row_slice sm r =
     take (nat (tensor_data (rp sm) ! Suc r) - nat (tensor_data (rp sm) ! r))
          (drop (nat (tensor_data (rp sm) ! r)) (tensor_data (ci sm)))"

definition csr_invariant :: "'a SparseMatrixRef \<Rightarrow> bool" where
  "csr_invariant sm =
     (0 \<le> SparseMatrixRef_rows sm
      \<and> length (tensor_data (rp sm)) = Suc (nat (SparseMatrixRef_rows sm))
      \<and> tensor_data (rp sm) ! 0 = 0
      \<and> sorted (tensor_data (rp sm))
      \<and> last (tensor_data (rp sm)) = int (length (tensor_data (ci sm)))
      \<and> SparseArrayRef_size sm = int (length (tensor_data (ci sm)))
      \<and> list_all (\<lambda>r. sorted (row_slice sm r)) [0..<nat (SparseMatrixRef_rows sm)]
      \<and> (nullQ (ev sm) \<or> length (tensor_data (ev sm)) = length (tensor_data (ci sm))))"

text \<open>The elements of \<open>xs\<close> at the offsets from \<open>a\<close> up to \<open>b\<close> ascend.\<close>

definition ascending_on :: "mint list \<Rightarrow> nat \<Rightarrow> nat \<Rightarrow> bool" where
  "ascending_on xs a b = (\<forall>p q. a \<le> p \<and> p \<le> q \<and> q < b \<longrightarrow> xs ! p \<le> xs ! q)"

text \<open>
  \<open>class SparseMatrixRef<T>::iterator\<close>. The reference \<open>sm\<close> to the matrix is passed
  to each operation.
\<close>

record iterator =
  row_index :: mint
  index :: mint

definition iterator_deref :: "'a SparseMatrixRef \<Rightarrow> iterator \<Rightarrow> failure + 'a" where
  "iterator_deref sm it = at (ev sm) (index it)"

definition iterator_eq :: "iterator \<Rightarrow> iterator \<Rightarrow> bool" where
  "iterator_eq a b = (index a = index b)"

definition iterator_neq :: "iterator \<Rightarrow> iterator \<Rightarrow> bool" where
  "iterator_neq a b = (index a \<noteq> index b)"

text \<open>
  The loop of \<open>operator++\<close>:
  \<open>while (sm.rp[row_index+1] == index && row_index < sm.size()) row_index++\<close>.
  The row pointer is read before the bound is tested.
\<close>

function increment_loop :: "'a SparseMatrixRef \<Rightarrow> mint \<Rightarrow> mint \<Rightarrow> failure + mint" where
  "increment_loop sm idx r =
     (case at (rp sm) (r + 1) of Inl e \<Rightarrow> Inl e
      | Inr x \<Rightarrow>
          if x = idx \<and> r < SparseArrayRef_size sm then increment_loop sm idx (r + 1)
          else Inr r)"
  by pat_completeness auto
termination
  by (relation "measure (\<lambda>(sm, idx, r). nat (SparseArrayRef_size sm - r))") auto

declare increment_loop.simps [simp del]

definition iterator_increment :: "'a SparseMatrixRef \<Rightarrow> iterator \<Rightarrow> failure + iterator" where
  "iterator_increment sm it =
     (let idx = index it + 1
      in case increment_loop sm idx (row_index it) of Inl e \<Rightarrow> Inl e
         | Inr r \<Rightarrow> Inr \<lparr>row_index = r, index = idx\<rparr>)"

text \<open>
  The loop of \<open>operator--\<close>:
  \<open>while (sm.rp[row_index] == index && row_index > 0) row_index--\<close>.
\<close>

function decrement_loop :: "'a SparseMatrixRef \<Rightarrow> mint \<Rightarrow> mint \<Rightarrow> failure + mint" where
  "decrement_loop sm idx r =
     (case at (rp sm) r of Inl e \<Rightarrow> Inl e
      | Inr x \<Rightarrow>
          if x = idx \<and> r > 0 then decrement_loop sm idx (r - 1)
          else Inr r)"
  by pat_completeness auto
termination
  by (relation "measure (\<lambda>(sm, idx, r). nat r)") auto

declare decrement_loop.simps [simp del]

definition iterator_decrement :: "'a SparseMatrixRef \<Rightarrow> iterator \<Rightarrow> failure + iterator" where
  "iterator_decrement sm it =
     (case decrement_loop sm (index it) (row_index it) of Inl e \<Rightarrow> Inl e
      | Inr r \<Rightarrow> Inr \<lparr>row_index = r, index = index it - 1\<rparr>)"

definition iterator_row :: "iterator \<Rightarrow> mint" where
  "iterator_row it = row_index it"

definition iterator_col :: "'a SparseMatrixRef \<Rightarrow> iterator \<Rightarrow> failure + mint" where
  "iterator_col sm it =
     (case at (ci sm) (index it) of Inl e \<Rightarrow> Inl e | Inr c \<Rightarrow> Inr (c - 1))"

text \<open>
  \<open>begin()\<close>, with its loop
  \<open>while (rp[row_index+1] == 0 && row_index < size()) row_index++\<close>, and \<open>end()\<close>.
\<close>

function begin_loop :: "'a SparseMatrixRef \<Rightarrow> mint \<Rightarrow> failure + mint" where
  "begin_loop sm r =
     (case at (rp sm) (r + 1) of Inl e \<Rightarrow> Inl e
      | Inr x \<Rightarrow>
          if x = 0 \<and> r < SparseArrayRef_size sm then begin_loop sm (r + 1)
          else Inr r)"
  by pat_completeness auto
termination
  by (relation "measure (\<lambda>(sm, r). nat (SparseArrayRef_size sm - r))") auto

declare begin_loop.simps [simp del]

definition SparseMatrixRef_begin :: "'a SparseMatrixRef \<Rightarrow> failure + iterator" where
  "SparseMatrixRef_begin sm =
     (case begin_loop sm 0 of Inl e \<Rightarrow> Inl e
      | Inr r \<Rightarrow> Inr \<lparr>row_index = r, index = 0\<rparr>)"

definition SparseMatrixRef_end :: "'a SparseMatrixRef \<Rightarrow> iterator" where
  "SparseMatrixRef_end sm =
     \<lparr>row_index = SparseMatrixRef_rows sm, index = SparseArrayRef_size sm\<rparr>"

section \<open>Sparse operations that call the host\<close>

text \<open>
  The host's sparse routines build and convert CSR data; they are not part of the
  repository and are taken as parameters, each a function of the host state that
  returns its error code, what it stored through its result pointer, and the new
  state.
\<close>

type_synonym 'a host_resetImplicitValue =
  "MSparseArray \<Rightarrow> MTensor option \<Rightarrow> 'a host \<Rightarrow> int \<times> MSparseArray option \<times> 'a host"

type_synonym 'a host_getExplicitPositions =
  "MSparseArray \<Rightarrow> 'a host \<Rightarrow> int \<times> MTensor option \<times> 'a host"

type_synonym 'a host_fromExplicitPositions =
  "MTensor option \<Rightarrow> MTensor option \<Rightarrow> MTensor option \<Rightarrow> MTensor \<Rightarrow> 'a host
     \<Rightarrow> int \<times> MSparseArray option \<times> 'a host"

text \<open>The write \<open>*detail::getData<T>(it) = v\<close>, at offset \<open>k\<close> of the buffer.\<close>

definition write_T :: "MTensor \<Rightarrow> nat \<Rightarrow> 'a \<Rightarrow> 'a host \<Rightarrow> failure + 'a host" where
  "write_T mt k v h =
     (case getData_T h mt of Inl e \<Rightarrow> Inl e
      | Inr xs \<Rightarrow>
          if k < length xs then Inr (store_T (Some mt) (xs[k := v]) h)
          else Inl UndefinedBehaviour)"

text \<open>\<open>SparseArrayRef resetImplicitValue(const T &iv) const\<close>.\<close>

definition resetImplicitValue ::
  "'a host_resetImplicitValue \<Rightarrow> ('a, 'b) SparseArrayRef_scheme \<Rightarrow> 'a \<Rightarrow> ('a::zero) host
     \<Rightarrow> (failure + 'a SparseArrayRef) \<times> 'a host" where
  "resetImplicitValue MSparseArray_resetImplicitValue s new_iv h =
     (case MTensor_new MType_Element 0 [] h of
        (err, r, h1) \<Rightarrow>
          if err \<noteq> 0 then (throw_err ''MTensor_new() failed.'' err, h1)
          else
            (case r of None \<Rightarrow> (Inl UndefinedBehaviour, h1)
             | Some it \<Rightarrow>
                 (case write_T it 0 new_iv h1 of Inl e \<Rightarrow> (Inl e, h1)
                  | Inr h2 \<Rightarrow>
                      (case MSparseArray_resetImplicitValue (sa s) (Some it) h2 of
                         (err2, msa, h3) \<Rightarrow>
                           if err2 \<noteq> 0
                           then (throw_err ''MSparseArray_resetImplicitValue() failed.'' err2, h3)
                           else
                             (let h4 = MTensor_free it h3
                              in case msa of None \<Rightarrow> (Inl UndefinedBehaviour, h4)
                                 | Some a \<Rightarrow> SparseArrayRef_ctor a h4)))))"

text \<open>\<open>IntTensorRef explicitPositions() const\<close>.\<close>

definition explicitPositions ::
  "'a host_getExplicitPositions \<Rightarrow> ('a, 'b) SparseArrayRef_scheme \<Rightarrow> ('a::zero) host
     \<Rightarrow> (failure + mint TensorRef) \<times> 'a host" where
  "explicitPositions MSparseArray_getExplicitPositions s h =
     (case MSparseArray_getExplicitPositions (sa s) h of
        (err, r, h1) \<Rightarrow>
          if err \<noteq> 0 then (throw_err ''MSParseArray_getExplicitPositions() failed.'' err, h1)
          else
            (case r of None \<Rightarrow> (Inl UndefinedBehaviour, h1)
             | Some mt \<Rightarrow>
                 (case MTensor_getRank h1 mt of Inl e \<Rightarrow> (Inl e, h1)
                  | Inr rnk \<Rightarrow>
                      if rnk = 0 then
                        (let h2 = MTensor_free mt h1
                         in case SparseArrayRef_rank h2 s of Inl e \<Rightarrow> (Inl e, h2)
                            | Inr n \<Rightarrow>
                                (case makeMatrix TensorRef_mint MType_Integer 0 n h2 of
                                   (Inl e, h3) \<Rightarrow> (Inl e, h3)
                                 | (Inr m, h3) \<Rightarrow> (Inr (TensorRef.truncate m), h3)))
                      else (TensorRef_mint h1 mt, h1))))"

text \<open>
  What the host is taken to build for an empty position list: an array \<open>obj\<close> whose
  column-index tensor is absent or, when present, has no element and is a live
  tensor other than the temporary \<open>it\<close>.
\<close>

definition no_column_index :: "'a host \<Rightarrow> MTensor \<Rightarrow> sparse_obj \<Rightarrow> bool" where
  "no_column_index h it obj =
     (case sp_columnIndices obj of None \<Rightarrow> True
      | Some c \<Rightarrow> c \<noteq> it \<and> c < next_handle h \<and> MTensor_getFlattenedLength h c = Inr 0)"

text \<open>
  \<open>makeSparseArray(IntMatrixRef pos, TensorRef<T> vals, IntTensorRef dims, T imp)\<close>.
  The return code of the \<open>MTensor_new\<close> that inserts the empty explicit-values
  tensor is not looked at.
\<close>

definition makeSparseArray ::
  "'a host_fromExplicitPositions \<Rightarrow> mint MatrixRef \<Rightarrow> 'a TensorRef \<Rightarrow> mint TensorRef \<Rightarrow> 'a
     \<Rightarrow> ('a::zero) host \<Rightarrow> (failure + 'a SparseArrayRef) \<times> 'a host" where
  "makeSparseArray MSparseArray_fromExplicitPositions pos vals dims imp h =
     (case massert (MatrixRef_cols pos = TensorRef_size dims) of Inl e \<Rightarrow> (Inl e, h)
      | Inr _ \<Rightarrow>
     (case massert (MatrixRef_rows pos = TensorRef_size vals) of Inl e \<Rightarrow> (Inl e, h)
      | Inr _ \<Rightarrow>
     (case MTensor_new MType_Element 0 [] h of
        (err, r, h1) \<Rightarrow>
          if err \<noteq> 0 then (throw_err ''makeSparseArray: MTensor_new() failed.'' err, h1)
          else
            (case r of None \<Rightarrow> (Inl UndefinedBehaviour, h1)
             | Some it \<Rightarrow>
                 (case write_T it 0 imp h1 of Inl e \<Rightarrow> (Inl e, h1)
                  | Inr h2 \<Rightarrow>
                      (case MSparseArray_fromExplicitPositions
                              (tensor pos) (tensor vals) (tensor dims) it h2 of
                         (err2, r2, h3) \<Rightarrow>
                           (let h4 = MTensor_free it h3
                            in if err2 \<noteq> 0
                               then (throw_err
                                 ''makeSparseArray: MSparseArray_fromExplicitPositions() failed.''
                                 err2, h4)
                               else
                                 (case r2 of None \<Rightarrow> (Inl UndefinedBehaviour, h4)
                                  | Some a \<Rightarrow>
                                      (case sparse_arrays h4 a of
                                         None \<Rightarrow> (Inl UndefinedBehaviour, h4)
                                       | Some obj \<Rightarrow>
                                           (if sp_explicitValues obj = None
                                            then
                                              (case MTensor_new MType_Element 1 [0] h4 of
                                                 (err3, r3, h5) \<Rightarrow>
                                                   SparseArrayRef_ctor a
                                                     (h5\<lparr>sparse_arrays := (sparse_arrays h5)
                                                        (a \<mapsto> obj\<lparr>sp_explicitValues := r3\<rparr>)\<rparr>))
                                            else SparseArrayRef_ctor a h4))))))))))"

section \<open>Image views\<close>

type_synonym MImage = nat

text \<open>\<open>class GenericImageRef\<close>.\<close>

record GenericImageRef =
  im :: MImage
  len :: mint
  nrows :: mint
  ncols :: mint
  nslices :: mint
  nchannels :: mint
  interleaved :: bool
  alphaChannel :: bool

definition GenericImageRef_length :: "'b GenericImageRef_scheme \<Rightarrow> mint" where
  "GenericImageRef_length g = GenericImageRef.len g"

definition GenericImageRef_rows :: "'b GenericImageRef_scheme \<Rightarrow> mint" where
  "GenericImageRef_rows g = GenericImageRef.nrows g"

definition GenericImageRef_cols :: "'b GenericImageRef_scheme \<Rightarrow> mint" where
  "GenericImageRef_cols g = GenericImageRef.ncols g"

definition slices :: "'b GenericImageRef_scheme \<Rightarrow> mint" where
  "slices g = nslices g"

definition channelSize :: "'b GenericImageRef_scheme \<Rightarrow> mint" where
  "channelSize g = slices g * GenericImageRef_rows g * GenericImageRef_cols g"

definition channels :: "'b GenericImageRef_scheme \<Rightarrow> mint" where
  "channels g = nchannels g"

definition interleavedQ :: "'b GenericImageRef_scheme \<Rightarrow> bool" where
  "interleavedQ g = interleaved g"

text \<open>
  \<open>class ImageRef<T>\<close> and \<open>class Image3DRef<T>\<close> have the same members,
  \<open>GenericImageRef\<close> and the pixel-data pointer; one record models both. The pointer
  is modelled by the pixel buffer.
\<close>

record 'a ImageRef = GenericImageRef +
  image_data :: "'a list"

text \<open>The element a \<open>T &\<close> into the pixel buffer refers to, read and written.\<close>

definition pixel_read :: "'a ImageRef \<Rightarrow> mint \<Rightarrow> failure + 'a" where
  "pixel_read img k =
     (if 0 \<le> k \<and> k < int (length (image_data img)) then Inr (image_data img ! nat k)
      else Inl UndefinedBehaviour)"

definition pixel_write :: "'a ImageRef \<Rightarrow> mint \<Rightarrow> 'a \<Rightarrow> failure + 'a ImageRef" where
  "pixel_write img k v =
     (if 0 \<le> k \<and> k < int (length (image_data img))
      then Inr (img\<lparr>image_data := (image_data img)[nat k := v]\<rparr>)
      else Inl UndefinedBehaviour)"

text \<open>
  \<open>ImageRef<T>::operator()(row, col, channel)\<close>: the offset into \<open>image_data\<close> of the
  reference it returns, then the read and the write through that reference.
\<close>

definition ImageRef_index :: "'a ImageRef \<Rightarrow> mint \<Rightarrow> mint \<Rightarrow> mint \<Rightarrow> mint" where
  "ImageRef_index img row col channel =
     (if interleavedQ img
      then row * GenericImageRef_cols img * channels img + col * channels img + channel
      else channel * GenericImageRef_rows img * GenericImageRef_cols img
           + row * GenericImageRef_cols img + col)"

definition ImageRef_get :: "'a ImageRef \<Rightarrow> mint \<Rightarrow> mint \<Rightarrow> mint \<Rightarrow> failure + 'a" where
  "ImageRef_get img row col channel = pixel_read img (ImageRef_index img row col channel)"

definition ImageRef_set ::
  "'a ImageRef \<Rightarrow> mint \<Rightarrow> mint \<Rightarrow> mint \<Rightarrow> 'a \<Rightarrow> failure + 'a ImageRef" where
  "ImageRef_set img row col channel v =
     pixel_write img (ImageRef_index img row col channel) v"

text \<open>\<open>Image3DRef<T>::operator()(slice, row, col, channel)\<close>.\<close>

definition Image3DRef_index :: "'a ImageRef \<Rightarrow> mint \<Rightarrow> mint \<Rightarrow> mint \<Rightarrow> mint \<Rightarrow> mint" where
  "Image3DRef_index img slice row col channel =
     (if interleavedQ img
      then slice * GenericImageRef_rows img * GenericImageRef_cols img * channels img
           + row * GenericImageRef_cols img * channels img + col * channels img + channel
      else channel * slices img * GenericImageRef_rows img * GenericImageRef_cols img
           + slice * GenericImageRef_rows img * GenericImageRef_cols img
           + row * GenericImageRef_cols img + col)"

definition Image3DRef_get :: "'a ImageRef \<Rightarrow> mint \<Rightarrow> mint \<Rightarrow> mint \<Rightarrow> mint \<Rightarrow> failure + 'a" where
  "Image3DRef_get img slice row col channel =
     pixel_read img (Image3DRef_index img slice row col channel)"

definition Image3DRef_set ::
  "'a ImageRef \<Rightarrow> mint \<Rightarrow> mint \<Rightarrow> mint \<Rightarrow> mint \<Rightarrow> 'a \<Rightarrow> failure + 'a ImageRef" where
  "Image3DRef_set img slice row col channel v =
     pixel_write img (Image3DRef_index img slice row col channel) v"

text \<open>
  An image view whose counts are those of its buffer: no negative extent, and
  \<open>slices * rows * cols * channels\<close> pixels.
\<close>

definition image_shape_ok :: "'a ImageRef \<Rightarrow> bool" where
  "image_shape_ok img =
     (0 \<le> slices img \<and> 0 \<le> GenericImageRef_rows img \<and> 0 \<le> GenericImageRef_cols img
      \<and> 0 \<le> channels img
      \<and> int (length (image_data img)) = channelSize img * channels img)"

text \<open>
  \<open>class pixel_iterator<T>\<close>: \<open>ptr\<close> is kept as an offset from the start of the pixel
  buffer.
\<close>

record pixel_iterator =
  ptr :: mint
  step :: mint

definition pixel_iterator_eq :: "pixel_iterator \<Rightarrow> pixel_iterator \<Rightarrow> bool" where
  "pixel_iterator_eq a b = (ptr a = ptr b)"

definition pixel_iterator_plus :: "pixel_iterator \<Rightarrow> mint \<Rightarrow> pixel_iterator" where
  "pixel_iterator_plus a n = \<lparr>ptr = ptr a + n * step a, step = step a\<rparr>"

text \<open>
  \<open>ptrdiff_t operator - (const pixel_iterator &it) const { (ptr - it.ptr)/step; }\<close>
  and the four relational operators, \<open>{ ptr < it.ptr; }\<close> and so on: each body
  evaluates its expression, discards it, and reaches the end of a value-returning
  function without a \<open>return\<close>.
\<close>

definition pixel_iterator_minus :: "pixel_iterator \<Rightarrow> pixel_iterator \<Rightarrow> failure + mint" where
  "pixel_iterator_minus a b = (let discarded = (ptr a - ptr b) sdiv step a in Inl UndefinedBehaviour)"

definition pixel_iterator_less :: "pixel_iterator \<Rightarrow> pixel_iterator \<Rightarrow> failure + bool" where
  "pixel_iterator_less a b = (let discarded = (ptr a < ptr b) in Inl UndefinedBehaviour)"

definition pixel_iterator_greater :: "pixel_iterator \<Rightarrow> pixel_iterator \<Rightarrow> failure + bool" where
  "pixel_iterator_greater a b = (let discarded = (ptr a > ptr b) in Inl UndefinedBehaviour)"

definition pixel_iterator_less_eq :: "pixel_iterator \<Rightarrow> pixel_iterator \<Rightarrow> failure + bool" where
  "pixel_iterator_less_eq a b = (let discarded = (ptr a \<le> ptr b) in Inl UndefinedBehaviour)"

definition pixel_iterator_greater_eq :: "pixel_iterator \<Rightarrow> pixel_iterator \<Rightarrow> failure + bool" where
  "pixel_iterator_greater_eq a b = (let discarded = (ptr a \<ge> ptr b) in Inl UndefinedBehaviour)"

text \<open>\<open>pixelBegin(channel)\<close> and \<open>pixelEnd(channel)\<close>, the same in both image classes.\<close>

definition pixelBegin :: "'a ImageRef \<Rightarrow> mint \<Rightarrow> pixel_iterator" where
  "pixelBegin img channel =
     (if interleavedQ img then \<lparr>ptr = channel, step = channels img\<rparr>
      else \<lparr>ptr = channelSize img * channel, step = 1\<rparr>)"

definition pixelEnd :: "'a ImageRef \<Rightarrow> mint \<Rightarrow> pixel_iterator" where
  "pixelEnd img channel = pixel_iterator_plus (pixelBegin img channel) (channelSize img)"

section \<open>Concrete inputs\<close>

text \<open>
  A host that holds one 3-by-3 sparse matrix with implicit value 5 and the explicit
  entries 10 at (0,0), 30 at (0,2) and 20 at (2,1), and the view of that matrix.
\<close>

definition example_host :: "int host" where
  "example_host =
     \<lparr>tensors =
        [1 \<mapsto> \<lparr>tensor_rank = 1, tensor_dims = [4], tensor_elems = IntegerData [0, 2, 2, 3]\<rparr>,
         2 \<mapsto> \<lparr>tensor_rank = 2, tensor_dims = [3, 1], tensor_elems = IntegerData [1, 3, 2]\<rparr>,
         3 \<mapsto> \<lparr>tensor_rank = 1, tensor_dims = [3], tensor_elems = ElementData [10, 30, 20]\<rparr>,
         4 \<mapsto> \<lparr>tensor_rank = 0, tensor_dims = [], tensor_elems = ElementData [5]\<rparr>],
      sparse_arrays =
        [0 \<mapsto> \<lparr>sp_rowPointers = Some 1, sp_columnIndices = Some 2, sp_explicitValues = Some 3,
               sp_implicitValue = Some 4, sp_rank = 2, sp_dims = [3, 3]\<rparr>],
      next_handle = 5,
      pending_errors = []\<rparr>"

definition example_matrix :: "int SparseMatrixRef" where
  "example_matrix =
     \<lparr>sa = 0,
      rp = \<lparr>tensor = Some 1, tensor_data = [0, 2, 2, 3], TensorRef.len = 4\<rparr>,
      ci = \<lparr>tensor = Some 2, tensor_data = [1, 3, 2], TensorRef.len = 3\<rparr>,
      ev = \<lparr>tensor = Some 3, tensor_data = [10, 30, 20], TensorRef.len = 3\<rparr>,
      iv = 5,
      SparseMatrixRef.ncols = 3, SparseMatrixRef.nrows = 3\<rparr>"

text \<open>The same positions in a pattern array: the host has no explicit-values tensor.\<close>

definition pattern_host :: "int host" where
  "pattern_host =
     \<lparr>tensors =
        [1 \<mapsto> \<lparr>tensor_rank = 1, tensor_dims = [4], tensor_elems = IntegerData [0, 2, 2, 3]\<rparr>,
         2 \<mapsto> \<lparr>tensor_rank = 2, tensor_dims = [3, 1], tensor_elems = IntegerData [1, 3, 2]\<rparr>,
         4 \<mapsto> \<lparr>tensor_rank = 0, tensor_dims = [], tensor_elems = ElementData [5]\<rparr>],
      sparse_arrays =
        [0 \<mapsto> \<lparr>sp_rowPointers = Some 1, sp_columnIndices = Some 2, sp_explicitValues = None,
               sp_implicitValue = Some 4, sp_rank = 2, sp_dims = [3, 3]\<rparr>],
      next_handle = 5,
      pending_errors = []\<rparr>"

definition pattern_matrix :: "int SparseMatrixRef" where
  "pattern_matrix =
     \<lparr>sa = 0,
      rp = \<lparr>tensor = Some 1, tensor_data = [0, 2, 2, 3], TensorRef.len = 4\<rparr>,
      ci = \<lparr>tensor = Some 2, tensor_data = [1, 3, 2], TensorRef.len = 3\<rparr>,
      ev = TensorRef_null,
      iv = 5,
      SparseMatrixRef.ncols = 3, SparseMatrixRef.nrows = 3\<rparr>"

text \<open>A 3-by-3 matrix whose only explicit entry, 7, is at (2,0): rows 0 and 1 are empty.\<close>

definition last_row_matrix :: "int SparseMatrixRef" where
  "last_row_matrix =
     \<lparr>sa = 0,
      rp = \<lparr>tensor = Some 1, tensor_data = [0, 0, 0, 1], TensorRef.len = 4\<rparr>,
      ci = \<lparr>tensor = Some 2, tensor_data = [1], TensorRef.len = 1\<rparr>,
      ev = \<lparr>tensor = Some 3, tensor_data = [7], TensorRef.len = 1\<rparr>,
      iv = 0,
      SparseMatrixRef.ncols = 3, SparseMatrixRef.nrows = 3\<rparr>"

text \<open>
  A 4-by-3 matrix with the explicit entries 7 at (0,0) and 8 at (3,0): rows 1 and 2
  are empty.
\<close>

definition gap_matrix :: "int SparseMatrixRef" where
  "gap_matrix =
     \<lparr>sa = 0,
      rp = \<lparr>tensor = Some 1, tensor_data = [0, 1, 1, 1, 2], TensorRef.len = 5\<rparr>,
      ci = \<lparr>tensor = Some 2, tensor_data = [1, 1], TensorRef.len = 2\<rparr>,
      ev = \<lparr>tensor = Some 3, tensor_data = [7, 8], TensorRef.len = 2\<rparr>,
      iv = 0,
      SparseMatrixRef.ncols = 3, SparseMatrixRef.nrows = 4\<rparr>"

text \<open>A 3-by-3 matrix with explicit values and no explicit entry.\<close>

definition empty_matrix :: "int SparseMatrixRef" where
  "empty_matrix =
     \<lparr>sa = 0,
      rp = \<lparr>tensor = Some 1, tensor_data = [0, 0, 0, 0], TensorRef.len = 4\<rparr>,
      ci = \<lparr>tensor = Some 2, tensor_data = [], TensorRef.len = 0\<rparr>,
      ev = \<lparr>tensor = Some 3, tensor_data = [], TensorRef.len = 0\<rparr>,
      iv = 0,
      SparseMatrixRef.ncols = 3, SparseMatrixRef.nrows = 3\<rparr>"

text \<open>
  A 0-by-3 matrix with explicit values: no row, so one row pointer, and no entry.
\<close>

definition zero_row_matrix :: "int SparseMatrixRef" where
  "zero_row_matrix =
     \<lparr>sa = 0,
      rp = \<lparr>tensor = Some 1, tensor_data = [0], TensorRef.len = 1\<rparr>,
      ci = \<lparr>tensor = Some 2, tensor_data = [], TensorRef.len = 0\<rparr>,
      ev = \<lparr>tensor = Some 3, tensor_data = [], TensorRef.len = 0\<rparr>,
      iv = 0,
      SparseMatrixRef.ncols = 3, SparseMatrixRef.nrows = 0\<rparr>"

text \<open>A host with nothing allocated.\<close>

definition empty_host :: "int host" where
  "empty_host =
     \<lparr>tensors = Map.empty, sparse_arrays = Map.empty, next_handle = 0, pending_errors = []\<rparr>"

text \<open>A host reset routine that fails and changes nothing.\<close>

definition failing_resetImplicitValue :: "int host_resetImplicitValue" where
  "failing_resetImplicitValue a it h = (LIBRARY_FUNCTION_ERROR, None, h)"

text \<open>
  A host routine for an empty position list and the dimensions \<open>{3}\<close>, as the
  comment in \<open>makeSparseArray\<close> describes the host: it builds a pattern array, with
  row pointers and a copy of the implicit value and with neither column indices nor
  explicit values.
\<close>

definition pattern_fromExplicitPositions :: "int host_fromExplicitPositions" where
  "pattern_fromExplicitPositions p v d it h =
     (let n = next_handle h
      in (0, Some n,
          h\<lparr>tensors := (tensors h)
               (Suc n \<mapsto> \<lparr>tensor_rank = 1, tensor_dims = [2],
                         tensor_elems = IntegerData [0, 0]\<rparr>,
                Suc (Suc n) \<mapsto> \<lparr>tensor_rank = 0, tensor_dims = [],
                         tensor_elems =
                           ElementData (case getData_T h it of Inl e \<Rightarrow> [] | Inr xs \<Rightarrow> xs)\<rparr>),
            sparse_arrays := (sparse_arrays h)
               (n \<mapsto> \<lparr>sp_rowPointers = Some (Suc n), sp_columnIndices = None,
                     sp_explicitValues = None, sp_implicitValue = Some (Suc (Suc n)),
                     sp_rank = 1, sp_dims = [3]\<rparr>),
            next_handle := n + 3\<rparr>))"

text \<open>
  The arguments of a call with no position: a 0-by-1 position matrix, no value, and
  the dimensions \<open>{3}\<close>, in a host that holds the three tensors.
\<close>

definition argument_host :: "int host" where
  "argument_host =
     \<lparr>tensors =
        [0 \<mapsto> \<lparr>tensor_rank = 2, tensor_dims = [0, 1], tensor_elems = IntegerData []\<rparr>,
         1 \<mapsto> \<lparr>tensor_rank = 1, tensor_dims = [0], tensor_elems = ElementData []\<rparr>,
         2 \<mapsto> \<lparr>tensor_rank = 1, tensor_dims = [1], tensor_elems = IntegerData [3]\<rparr>],
      sparse_arrays = Map.empty,
      next_handle = 3,
      pending_errors = []\<rparr>"

text \<open>
  The same host when its first coming \<open>MTensor_new\<close> succeeds and its second fails
  with the error code 5.
\<close>

definition allocation_failure_host :: "int host" where
  "allocation_failure_host = argument_host\<lparr>pending_errors := [0, 5]\<rparr>"

definition no_positions :: "mint MatrixRef" where
  "no_positions =
     \<lparr>tensor = Some 0, tensor_data = [], TensorRef.len = 0,
      MatrixRef.nrows = 0, MatrixRef.ncols = 1\<rparr>"

definition no_values :: "int TensorRef" where
  "no_values = \<lparr>tensor = Some 1, tensor_data = [], TensorRef.len = 0\<rparr>"

definition dimensions_3 :: "mint TensorRef" where
  "dimensions_3 = \<lparr>tensor = Some 2, tensor_data = [3], TensorRef.len = 1\<rparr>"

text \<open>
  A host routine that reports no explicit position the way the comment in
  \<open>explicitPositions\<close> describes: by a rank-0 tensor.
\<close>

definition rank0_getExplicitPositions :: "int host_getExplicitPositions" where
  "rank0_getExplicitPositions a h =
     (0, Some (next_handle h),
      h\<lparr>tensors := (tensors h)(next_handle h \<mapsto>
             \<lparr>tensor_rank = 0, tensor_dims = [], tensor_elems = IntegerData [0]\<rparr>),
        next_handle := Suc (next_handle h)\<rparr>)"

text \<open>
  A 2-by-2 image with two channels, all pixels 0, in the layout given.
\<close>

definition example_image :: "bool \<Rightarrow> int ImageRef" where
  "example_image il =
     \<lparr>im = 0, len = 8, nrows = 2, ncols = 2, nslices = 1, nchannels = 2,
      interleaved = il, alphaChannel = True, image_data = replicate 8 0\<rparr>"

text \<open>A 2-slice 3-D image of the same slices.\<close>

definition example_image3D :: "bool \<Rightarrow> int ImageRef" where
  "example_image3D il =
     \<lparr>im = 0, len = 16, nrows = 2, ncols = 2, nslices = 2, nchannels = 2,
      interleaved = il, alphaChannel = True, image_data = replicate 16 0\<rparr>"

section \<open>The random-access read\<close>

lemma lower_bound_range:
  "first \<le> lower_bound xs first count val \<and> lower_bound xs first count val \<le> first + count"
proof (induction xs first count val rule: lower_bound.induct)
  case (1 xs first count val)
  show ?case
  proof (cases "0 < count")
    case False
    then show ?thesis by (simp add: lower_bound.simps)
  next
    case True
    define half where "half = count div 2"
    define middle where "middle = first + half"
    show ?thesis
    proof (cases "xs ! middle < val")
      case True
      have eq: "lower_bound xs first count val = lower_bound xs (middle + 1) (count - half - 1) val"
        using \<open>0 < count\<close> True
        by (subst lower_bound.simps) (simp add: half_def middle_def Let_def)
      have "middle + 1 \<le> lower_bound xs (middle + 1) (count - half - 1) val
          \<and> lower_bound xs (middle + 1) (count - half - 1) val \<le> (middle + 1) + (count - half - 1)"
        using "1.IH"(1) [OF \<open>0 < count\<close> half_def middle_def True] .
      moreover have "half < count" using \<open>0 < count\<close> by (simp add: half_def)
      ultimately show ?thesis unfolding eq middle_def by linarith
    next
      case False
      have eq: "lower_bound xs first count val = lower_bound xs first half val"
        using \<open>0 < count\<close> False
        by (subst lower_bound.simps) (simp add: half_def middle_def Let_def)
      have "first \<le> lower_bound xs first half val \<and> lower_bound xs first half val \<le> first + half"
        using "1.IH"(2) [OF \<open>0 < count\<close> half_def middle_def False] .
      moreover have "half < count" using \<open>0 < count\<close> by (simp add: half_def)
      ultimately show ?thesis unfolding eq by linarith
    qed
  qed
qed

lemma lower_bound_partition:
  "ascending_on xs first (first + count) \<Longrightarrow>
   (\<forall>k. first \<le> k \<and> k < lower_bound xs first count val \<longrightarrow> xs ! k < val) \<and>
   (\<forall>k. lower_bound xs first count val \<le> k \<and> k < first + count \<longrightarrow> val \<le> xs ! k)"
proof (induction xs first count val rule: lower_bound.induct)
  case (1 xs first count val)
  show ?case
  proof (cases "0 < count")
    case False
    then show ?thesis by (simp add: lower_bound.simps)
  next
    case True
    define half where "half = count div 2"
    define middle where "middle = first + half"
    have hlt: "half < count" using \<open>0 < count\<close> by (simp add: half_def)
    show ?thesis
    proof (cases "xs ! middle < val")
      case True
      have eq: "lower_bound xs first count val = lower_bound xs (middle + 1) (count - half - 1) val"
        using \<open>0 < count\<close> True
        by (subst lower_bound.simps) (simp add: half_def middle_def Let_def)
      have asc: "ascending_on xs (middle + 1) (middle + 1 + (count - half - 1))"
        using "1.prems" hlt unfolding ascending_on_def middle_def by auto
      note ih = "1.IH"(1) [OF \<open>0 < count\<close> half_def middle_def True asc]
      have low: "xs ! k < val" if "first \<le> k" "k \<le> middle" for k
      proof -
        have "xs ! k \<le> xs ! middle"
          using "1.prems" that hlt unfolding ascending_on_def middle_def by auto
        with True show ?thesis by linarith
      qed
      have e: "middle + 1 + (count - half - 1) = first + count"
        using hlt by (simp add: middle_def)
      show ?thesis unfolding eq using ih low e
        by (metis Suc_eq_plus1 not_less_eq_eq linorder_not_le)
    next
      case False
      have eq: "lower_bound xs first count val = lower_bound xs first half val"
        using \<open>0 < count\<close> False
        by (subst lower_bound.simps) (simp add: half_def middle_def Let_def)
      have asc: "ascending_on xs first (first + half)"
        using "1.prems" hlt unfolding ascending_on_def by auto
      note ih = "1.IH"(2) [OF \<open>0 < count\<close> half_def middle_def False asc]
      have high: "val \<le> xs ! k" if "middle \<le> k" "k < first + count" for k
      proof -
        have "xs ! middle \<le> xs ! k"
          using "1.prems" that unfolding ascending_on_def middle_def by auto
        with False show ?thesis by linarith
      qed
      show ?thesis unfolding eq using ih high unfolding middle_def
        by (metis linorder_not_le)
    qed
  qed
qed


lemma find_upt_first:
  assumes "lower \<le> c" "c < upper" "P c" "\<forall>k. lower \<le> k \<and> k < c \<longrightarrow> \<not> P k"
  shows "find P [lower..<upper] = Some c"
proof -
  have "\<exists>i<length [lower..<upper]. P ([lower..<upper] ! i) \<and> c = [lower..<upper] ! i
          \<and> (\<forall>j<i. \<not> P ([lower..<upper] ! j))"
  proof (intro exI [of _ "c - lower"] conjI)
    show "c - lower < length [lower..<upper]" using assms by simp
    show "P ([lower..<upper] ! (c - lower))" using assms by simp
    show "c = [lower..<upper] ! (c - lower)" using assms by simp
    show "\<forall>j<c - lower. \<not> P ([lower..<upper] ! j)" using assms by simp
  qed
  then show ?thesis by (simp only: find_Some_iff)
qed

lemma find_upt_none:
  assumes "\<forall>k. lower \<le> k \<and> k < upper \<longrightarrow> \<not> P k"
  shows "find P [lower..<upper] = None"
  using assms by (simp add: find_None_iff)

lemma sorted_rp_bounds:
  assumes "csr_invariant sm" "0 \<le> i" "i < SparseMatrixRef_rows sm"
  shows "at (rp sm) i = Inr (tensor_data (rp sm) ! nat i)"
    and "at (rp sm) (i + 1) = Inr (tensor_data (rp sm) ! nat (i + 1))"
    and "0 \<le> tensor_data (rp sm) ! nat i"
    and "tensor_data (rp sm) ! nat i \<le> tensor_data (rp sm) ! nat (i + 1)"
    and "tensor_data (rp sm) ! nat (i + 1) \<le> int (length (tensor_data (ci sm)))"
proof -
  let ?rp = "tensor_data (rp sm)"
  have n: "length ?rp = Suc (nat (SparseMatrixRef_rows sm))" and z: "?rp ! 0 = 0" and s: "sorted ?rp"
    and l: "last ?rp = int (length (tensor_data (ci sm)))"
    using assms(1) by (simp_all add: csr_invariant_def)
  show "at (rp sm) i = Inr (?rp ! nat i)" using assms n by (simp add: at_def)
  show "at (rp sm) (i + 1) = Inr (?rp ! nat (i + 1))" using assms n by (simp add: at_def)
  have "?rp ! 0 \<le> ?rp ! nat i" using s n assms by (intro sorted_nth_mono) auto
  then show "0 \<le> ?rp ! nat i" using z by simp
  show "?rp ! nat i \<le> ?rp ! nat (i + 1)" using s n assms by (intro sorted_nth_mono) auto
  have "?rp ! nat (i + 1) \<le> ?rp ! (length ?rp - 1)"
    using s n assms by (intro sorted_nth_mono) auto
  moreover have "?rp \<noteq> []" using n by auto
  ultimately show "?rp ! nat (i + 1) \<le> int (length (tensor_data (ci sm)))"
    using l by (simp add: last_conv_nth)
qed

lemma sorted_slice_ascending:
  assumes "sorted (take (hi - lo) (drop lo xs))" "hi \<le> length xs"
  shows "ascending_on xs lo hi"
  unfolding ascending_on_def
proof (intro allI impI)
  fix p q :: nat assume pq: "lo \<le> p \<and> p \<le> q \<and> q < hi"
  then have p1: "lo \<le> p" and p2: "p \<le> q" and p3: "q < hi" by auto
  have a: "p - lo \<le> q - lo" using p2 by linarith
  have c: "q - lo < hi - lo" using p1 p2 p3 by linarith
  have d: "q - lo < length xs - lo" using p1 p2 p3 assms(2) by linarith
  have b: "q - lo < length (take (hi - lo) (drop lo xs))" using c d by simp
  have "take (hi - lo) (drop lo xs) ! (p - lo) \<le> take (hi - lo) (drop lo xs) ! (q - lo)"
    using sorted_nth_mono [OF assms(1) a b] .
  moreover have "take (hi - lo) (drop lo xs) ! (p - lo) = xs ! p"
    using p1 p2 p3 c assms(2) by simp
  moreover have "take (hi - lo) (drop lo xs) ! (q - lo) = xs ! q"
    using p1 p2 c assms(2) by simp
  ultimately show "xs ! p \<le> xs ! q" by simp
qed

lemma row_ascending:
  assumes "csr_invariant sm" "0 \<le> i" "i < SparseMatrixRef_rows sm"
  shows "ascending_on (tensor_data (ci sm)) (nat (tensor_data (rp sm) ! nat i))
           (nat (tensor_data (rp sm) ! nat (i + 1)))"
proof -
  let ?rp = "tensor_data (rp sm)" and ?ci = "tensor_data (ci sm)"
  let ?lo = "nat (?rp ! nat i)" and ?hi = "nat (?rp ! nat (i + 1))"
  have "nat i \<in> set [0..<nat (SparseMatrixRef_rows sm)]" using assms by simp
  moreover have "list_all (\<lambda>r. sorted (row_slice sm r)) [0..<nat (SparseMatrixRef_rows sm)]"
    using assms(1) by (simp add: csr_invariant_def)
  ultimately have "sorted (row_slice sm (nat i))" by (simp add: list_all_iff)
  moreover have "Suc (nat i) = nat (i + 1)" using assms by simp
  ultimately have srt: "sorted (take (?hi - ?lo) (drop ?lo ?ci))"
    by (simp add: row_slice_def)
  have hi: "?hi \<le> length ?ci" using sorted_rp_bounds(5) [OF assms] by simp
  show ?thesis using sorted_slice_ascending [OF srt hi] .
qed

text \<open>
  C1. For a 2-D sparse view with explicit values that satisfies the CSR invariant and
  a row \<open>i\<close> in range, the random-access read, which bisects the column-index
  sub-range from \<open>rowPointer[i]\<close> to \<open>rowPointer[i+1]\<close> for the key \<open>j + 1\<close>, returns
  what a linear scan of that sub-range returns: the explicit value at the offset of
  the key when the key occurs, the implicit value otherwise.
\<close>

theorem sparse_read_matches_linear_scan:
  assumes "csr_invariant sm" "explicitValuesQ sm" "0 \<le> i" "i < SparseMatrixRef_rows sm"
  shows "SparseMatrixRef_index sm i j = Inr (linear_scan_read sm i j)"
proof -
  let ?rp = "tensor_data (rp sm)" and ?ci = "tensor_data (ci sm)"
  let ?lower = "?rp ! nat i" and ?upper = "?rp ! nat (i + 1)"
  let ?lo = "nat ?lower" and ?hi = "nat ?upper"
  note b = sorted_rp_bounds [OF assms(1,3,4)]
  define cp where "cp = lower_bound ?ci ?lo (?hi - ?lo) (j + 1)"
  have lohi: "?lo \<le> ?hi" "?hi \<le> length ?ci" using b by simp_all
  have asc: "ascending_on ?ci ?lo (?lo + (?hi - ?lo))"
    using row_ascending [OF assms(1,3,4)] lohi by simp
  have rng: "?lo \<le> cp" "cp \<le> ?hi"
    using lower_bound_range [of ?lo ?ci "?hi - ?lo" "j + 1"] lohi by (simp_all add: cp_def)
  have below: "\<forall>k. ?lo \<le> k \<and> k < cp \<longrightarrow> ?ci ! k < j + 1"
    and above: "\<forall>k. cp \<le> k \<and> k < ?hi \<longrightarrow> j + 1 \<le> ?ci ! k"
    using lower_bound_partition [OF asc, of "j + 1"] lohi by (simp_all add: cp_def)
  have evlen: "length (tensor_data (ev sm)) = length ?ci"
    using assms(1,2) by (simp add: csr_invariant_def explicitValuesQ_def)
  have code: "SparseMatrixRef_index sm i j =
      (if cp = ?hi then Inr (iv sm)
       else if ?ci ! cp = j + 1 then at (ev sm) (?lower + (int cp - ?lower))
       else Inr (iv sm))"
    using assms(2) b by (simp add: SparseMatrixRef_index_def cp_def Let_def)
  have scan: "linear_scan_read sm i j =
      (case find (\<lambda>k. ?ci ! k = j + 1) [?lo..<?hi] of None \<Rightarrow> iv sm
       | Some k \<Rightarrow> tensor_data (ev sm) ! k)"
    by (simp add: linear_scan_read_def Let_def)
  show ?thesis
  proof (cases "cp = ?hi")
    case True
    have "find (\<lambda>k. ?ci ! k = j + 1) [?lo..<?hi] = None"
      using below True by (intro find_upt_none) auto
    then show ?thesis using True by (simp add: code scan)
  next
    case False
    then have lt: "cp < ?hi" using rng by simp
    show ?thesis
    proof (cases "?ci ! cp = j + 1")
      case True
      have "find (\<lambda>k. ?ci ! k = j + 1) [?lo..<?hi] = Some cp"
        using below rng(1) lt True by (intro find_upt_first) auto
      moreover have "at (ev sm) (?lower + (int cp - ?lower)) = Inr (tensor_data (ev sm) ! cp)"
        using lt lohi evlen by (simp add: at_def)
      ultimately show ?thesis using False True by (simp add: code scan)
    next
      case ne: False
      have "j + 1 < ?ci ! cp" using above lt ne by (metis le_refl order_le_imp_less_or_eq)
      have "\<forall>k. ?lo \<le> k \<and> k < ?hi \<longrightarrow> ?ci ! k \<noteq> j + 1"
      proof (intro allI impI)
        fix k assume k: "?lo \<le> k \<and> k < ?hi"
        show "?ci ! k \<noteq> j + 1"
        proof (cases "k < cp")
          case True
          then show ?thesis using below k by fastforce
        next
          case False
          then have "cp \<le> k" by simp
          moreover have "ascending_on ?ci ?lo ?hi" using asc lohi by simp
          ultimately have "?ci ! cp \<le> ?ci ! k" using k rng unfolding ascending_on_def by blast
          then show ?thesis using \<open>j + 1 < ?ci ! cp\<close> by linarith
        qed
      qed
      then have "find (\<lambda>k. ?ci ! k = j + 1) [?lo..<?hi] = None"
        by (intro find_upt_none) auto
      then show ?thesis using False ne by (simp add: code scan)
    qed
  qed
qed


lemma example_matrix_invariant: "csr_invariant example_matrix"
  by (simp add: csr_invariant_def example_matrix_def SparseMatrixRef_rows_def
      SparseArrayRef_size_def SparseArrayRef_length_def TensorRef_length_def row_slice_def
      nullQ_def upt_conv_Cons)

theorem sparse_read_matches_linear_scan_witness:
  "SparseMatrixRef_index example_matrix 0 2 = Inr 30
   \<and> linear_scan_read example_matrix 0 2 = 30
   \<and> SparseMatrixRef_index example_matrix 1 1 = Inr 5"
proof -
  have e: "explicitValuesQ example_matrix"
    by (simp add: explicitValuesQ_def nullQ_def example_matrix_def)
  have r: "(0::int) < SparseMatrixRef_rows example_matrix" "(1::int) < SparseMatrixRef_rows example_matrix"
    by (simp_all add: SparseMatrixRef_rows_def example_matrix_def)
  have a: "linear_scan_read example_matrix 0 2 = 30"
    by (simp add: linear_scan_read_def example_matrix_def upt_conv_Cons)
  have b: "linear_scan_read example_matrix 1 1 = 5"
    by (simp add: linear_scan_read_def example_matrix_def)
  show ?thesis
    using sparse_read_matches_linear_scan [OF example_matrix_invariant e _ r(1), of 2]
          sparse_read_matches_linear_scan [OF example_matrix_invariant e _ r(2), of 1]
    by (simp add: a b)
qed

section \<open>Pattern arrays\<close>

lemma pattern_read_throws:
  "\<not> explicitValuesQ sm \<Longrightarrow>
   SparseMatrixRef_index sm i j = throw_msg ''SparseMatrixRef: cannot index into a pattern array.''"
  by (simp add: SparseMatrixRef_index_def)

text \<open>
  C3, as stated, fails: on the pattern array \<open>pattern_matrix\<close> the indexed read at
  (1,1) does not return the implicit value.
\<close>

theorem pattern_read_counterexample:
  "\<not> explicitValuesQ pattern_matrix
   \<and> SparseMatrixRef_index pattern_matrix 1 1 \<noteq> Inr (implicitValue pattern_matrix)"
  by (simp add: SparseMatrixRef_index_def explicitValuesQ_def nullQ_def pattern_matrix_def
      TensorRef_null_def throw_msg_def)

text \<open>
  C3, amended. For every 2-D sparse view that is a pattern array
  (\<open>explicitValuesQ\<close> is false) and every position, the indexed read does not return
  a value: it throws the \<open>LibraryError\<close> with the message
  \<open>SparseMatrixRef: cannot index into a pattern array.\<close>
\<close>

theorem pattern_read_is_error:
  "\<not> explicitValuesQ sm \<Longrightarrow>
   SparseMatrixRef_index sm i j =
     Inl (Thrown (LibraryError ''SparseMatrixRef: cannot index into a pattern array.'' True
            LIBRARY_FUNCTION_ERROR))"
  by (simp add: SparseMatrixRef_index_def throw_msg_def LibraryError_msg_def)

theorem pattern_read_is_error_witness:
  "SparseMatrixRef_index pattern_matrix 1 1 =
     Inl (Thrown (LibraryError ''SparseMatrixRef: cannot index into a pattern array.'' True
            LIBRARY_FUNCTION_ERROR))"
proof -
  have "\<not> explicitValuesQ pattern_matrix"
    by (simp add: explicitValuesQ_def nullQ_def pattern_matrix_def TensorRef_null_def)
  then show ?thesis by (rule pattern_read_is_error)
qed

lemma SparseArrayRef_ctor_ev:
  assumes "sparse_arrays h msa = Some obj" "SparseArrayRef_ctor msa h = (Inr s, h')"
  shows "\<exists>h1. getExplicitValues h1 obj = Inr (ev s)"
  using assms
  by (auto simp: SparseArrayRef_ctor_def split: option.splits sum.splits prod.splits)

lemma SparseMatrixRef_ctor_ev:
  "SparseMatrixRef_ctor h s = Inr sm \<Longrightarrow> ev sm = ev s"
  by (auto simp: SparseMatrixRef_ctor_def throw_msg_def split: sum.splits if_splits list.splits)

text \<open>
  C4. When the host reports no explicit-values buffer for the array a view is built
  from, \<open>explicitValuesQ\<close> is false, \<open>explicitValues\<close> throws its pattern-array
  \<open>LibraryError\<close>, and so does the random-access read of every 2-D view made of that
  view, at every position; none of them returns data.
\<close>

theorem no_values_buffer_is_pattern_array:
  assumes "sparse_arrays h msa = Some obj" and "sp_explicitValues obj = None"
    and "SparseArrayRef_ctor msa h = (Inr s, h')"
  shows "\<not> explicitValuesQ s
    \<and> explicitValues s = throw_msg ''SparseArrayRef::explicitValues() called on pattern array.''
    \<and> (\<forall>sm i j. SparseMatrixRef_ctor h' s = Inr sm \<longrightarrow>
          SparseMatrixRef_index sm i j =
            throw_msg ''SparseMatrixRef: cannot index into a pattern array.'')"
proof -
  obtain h1 where "getExplicitValues h1 obj = Inr (ev s)"
    using SparseArrayRef_ctor_ev [OF assms(1,3)] by blast
  then have "ev s = TensorRef_null"
    using assms(2) by (simp add: getExplicitValues_def)
  then have n: "nullQ (ev s)"
    by (simp add: nullQ_def TensorRef_null_def)
  have "SparseMatrixRef_index sm i j =
          throw_msg ''SparseMatrixRef: cannot index into a pattern array.''"
    if "SparseMatrixRef_ctor h' s = Inr sm" for sm i j
    using SparseMatrixRef_ctor_ev [OF that] n pattern_read_throws [of sm i j]
    by (simp add: explicitValuesQ_def)
  then show ?thesis using n by (simp add: explicitValuesQ_def explicitValues_def)
qed

lemma pattern_host_view:
  "SparseArrayRef_ctor 0 pattern_host = (Inr (SparseArrayRef.truncate pattern_matrix), pattern_host)"
  by (simp add: SparseArrayRef_ctor_def pattern_host_def pattern_matrix_def
      SparseArrayRef.truncate_def TensorRef_mint_def getData_mint_def
      MTensor_getFlattenedLength_def getColumnIndices_def getExplicitValues_def
      getImplicitValue_def getData_T_def)

lemma pattern_host_matrix:
  "SparseMatrixRef_ctor pattern_host (SparseArrayRef.truncate pattern_matrix) = Inr pattern_matrix"
  by (simp add: SparseMatrixRef_ctor_def SparseArrayRef_rank_def SparseArrayRef_dimensions_def
      pattern_host_def pattern_matrix_def SparseArrayRef.truncate_def)

theorem no_values_buffer_is_pattern_array_witness:
  "\<not> explicitValuesQ (SparseArrayRef.truncate pattern_matrix)
   \<and> explicitValues (SparseArrayRef.truncate pattern_matrix) =
       throw_msg ''SparseArrayRef::explicitValues() called on pattern array.''
   \<and> SparseMatrixRef_index pattern_matrix 0 2 =
       throw_msg ''SparseMatrixRef: cannot index into a pattern array.''"
proof -
  have a: "sparse_arrays pattern_host 0 =
      Some \<lparr>sp_rowPointers = Some 1, sp_columnIndices = Some 2, sp_explicitValues = None,
            sp_implicitValue = Some 4, sp_rank = 2, sp_dims = [3, 3]\<rparr>"
    by (simp add: pattern_host_def)
  show ?thesis
    using no_values_buffer_is_pattern_array [OF a _ pattern_host_view] pattern_host_matrix
    by simp
qed

section \<open>The iterator of the 2-D sparse view\<close>

lemma begin_loop_returns:
  assumes inv: "csr_invariant sm"
  shows "0 \<le> r \<Longrightarrow> r < SparseMatrixRef_rows sm \<Longrightarrow> \<exists>r'. begin_loop sm r = Inr r'"
proof (induction "nat (SparseMatrixRef_rows sm - r)" arbitrary: r rule: less_induct)
  case less
  let ?rp = "tensor_data (rp sm)"
  have n: "length ?rp = Suc (nat (SparseMatrixRef_rows sm))"
    and l: "last ?rp = int (length (tensor_data (ci sm)))"
    and sz: "SparseArrayRef_size sm = int (length (tensor_data (ci sm)))"
    using inv by (simp_all add: csr_invariant_def)
  have rd: "at (rp sm) (r + 1) = Inr (?rp ! nat (r + 1))"
    using less.prems n by (simp add: at_def)
  show ?case
  proof (cases "?rp ! nat (r + 1) = 0 \<and> r < SparseArrayRef_size sm")
    case False
    then show ?thesis by (subst begin_loop.simps) (auto simp: rd)
  next
    case True
    have "?rp \<noteq> []" using n by auto
    then have "?rp ! nat (SparseMatrixRef_rows sm) = SparseArrayRef_size sm"
      using l sz n by (simp add: last_conv_nth)
    with True less.prems have "r + 1 \<noteq> SparseMatrixRef_rows sm" by auto
    with less.prems have lt: "r + 1 < SparseMatrixRef_rows sm" by simp
    have "\<exists>r'. begin_loop sm (r + 1) = Inr r'"
      using less.hyps [of "r + 1"] less.prems lt by simp
    then show ?thesis using True by (subst begin_loop.simps) (simp add: rd)
  qed
qed

text \<open>
  \<open>operator==\<close> and \<open>operator!=\<close> compare the storage offsets and nothing else. For a
  view that satisfies the CSR invariant and has a row, \<open>begin()\<close> returns, and
  \<open>begin() == end()\<close> holds exactly when the view has no explicitly stored entry,
  whatever the two row indices are.
\<close>

lemma begin_eq_end_iff_no_entries:
  assumes "csr_invariant sm" and "0 < SparseMatrixRef_rows sm"
  shows "(\<exists>b. SparseMatrixRef_begin sm = Inr b
            \<and> iterator_eq b (SparseMatrixRef_end sm) = (SparseArrayRef_size sm = 0)
            \<and> iterator_neq b (SparseMatrixRef_end sm) = (SparseArrayRef_size sm \<noteq> 0))
    \<and> iterator_eq a c = (index a = index c)
    \<and> iterator_neq a c = (index a \<noteq> index c)
    \<and> iterator_eq (a\<lparr>row_index := r1\<rparr>) (c\<lparr>row_index := r2\<rparr>) = iterator_eq a c
    \<and> iterator_neq (a\<lparr>row_index := r1\<rparr>) (c\<lparr>row_index := r2\<rparr>) = iterator_neq a c"
proof -
  obtain r' where "begin_loop sm 0 = Inr r'"
    using begin_loop_returns [OF assms(1), of 0] assms(2) by auto
  then have "SparseMatrixRef_begin sm = Inr \<lparr>row_index = r', index = 0\<rparr>"
    by (simp add: SparseMatrixRef_begin_def)
  moreover have "iterator_eq \<lparr>row_index = r', index = 0\<rparr> (SparseMatrixRef_end sm)
      = (SparseArrayRef_size sm = 0)"
    by (auto simp: iterator_eq_def SparseMatrixRef_end_def)
  moreover have "iterator_neq \<lparr>row_index = r', index = 0\<rparr> (SparseMatrixRef_end sm)
      = (SparseArrayRef_size sm \<noteq> 0)"
    by (auto simp: iterator_neq_def SparseMatrixRef_end_def)
  ultimately show ?thesis by (simp add: iterator_eq_def iterator_neq_def)
qed

lemma empty_matrix_invariant: "csr_invariant empty_matrix"
  by (simp add: csr_invariant_def empty_matrix_def SparseMatrixRef_rows_def
      SparseArrayRef_size_def SparseArrayRef_length_def TensorRef_length_def row_slice_def
      nullQ_def upt_conv_Cons)

lemma begin_eq_end_empty_matrix:
  "SparseMatrixRef_begin empty_matrix = Inr \<lparr>row_index = 0, index = 0\<rparr>
   \<and> SparseMatrixRef_end empty_matrix = \<lparr>row_index = 3, index = 0\<rparr>
   \<and> iterator_eq \<lparr>row_index = 0, index = 0\<rparr> (SparseMatrixRef_end empty_matrix)
   \<and> SparseArrayRef_size empty_matrix = 0"
proof -
  have r: "0 < SparseMatrixRef_rows empty_matrix"
    by (simp add: SparseMatrixRef_rows_def empty_matrix_def)
  have b: "SparseMatrixRef_begin empty_matrix = Inr \<lparr>row_index = 0, index = 0\<rparr>"
    by (simp add: SparseMatrixRef_begin_def begin_loop.simps at_def empty_matrix_def
        SparseArrayRef_size_def SparseArrayRef_length_def TensorRef_length_def)
  have e: "SparseMatrixRef_end empty_matrix = \<lparr>row_index = 3, index = 0\<rparr>"
    by (simp add: SparseMatrixRef_end_def SparseMatrixRef_rows_def empty_matrix_def
        SparseArrayRef_size_def SparseArrayRef_length_def TensorRef_length_def)
  show ?thesis
    using begin_eq_end_iff_no_entries [OF empty_matrix_invariant r] b e
    by (simp add: iterator_eq_def)
qed

lemma zero_row_matrix_invariant: "csr_invariant zero_row_matrix"
  by (simp add: csr_invariant_def zero_row_matrix_def SparseMatrixRef_rows_def
      SparseArrayRef_size_def SparseArrayRef_length_def TensorRef_length_def nullQ_def)

text \<open>
  C9, evaluated where the code departs from it. The loop of \<open>begin()\<close> reads
  \<open>rp[row_index+1]\<close> before it tests its bound. The view \<open>zero_row_matrix\<close> has no row
  and no explicitly stored entry, and its row-pointer buffer has the one element
  \<open>rp[0]\<close>: \<open>begin()\<close> reads \<open>rp[1]\<close> past the end of that buffer, so \<open>begin() == end()\<close>
  has no defined value there, although \<open>end()\<close> is at the storage offset 0 where
  \<open>begin()\<close> would be.
\<close>

theorem begin_reads_past_row_pointers:
  "SparseMatrixRef_rows zero_row_matrix = 0
   \<and> SparseArrayRef_size zero_row_matrix = 0
   \<and> length (tensor_data (rp zero_row_matrix)) = 1
   \<and> at (rp zero_row_matrix) (0 + 1) = Inl UndefinedBehaviour
   \<and> SparseMatrixRef_begin zero_row_matrix = Inl UndefinedBehaviour
   \<and> SparseMatrixRef_end zero_row_matrix = \<lparr>row_index = 0, index = 0\<rparr>"
  by (simp add: SparseMatrixRef_begin_def begin_loop.simps at_def zero_row_matrix_def
      SparseMatrixRef_end_def SparseMatrixRef_rows_def SparseArrayRef_size_def
      SparseArrayRef_length_def TensorRef_length_def)

lemma last_row_matrix_invariant: "csr_invariant last_row_matrix"
  by (simp add: csr_invariant_def last_row_matrix_def SparseMatrixRef_rows_def
      SparseArrayRef_size_def SparseArrayRef_length_def TensorRef_length_def row_slice_def
      nullQ_def upt_conv_Cons)

lemma gap_matrix_invariant: "csr_invariant gap_matrix"
  by (simp add: csr_invariant_def gap_matrix_def SparseMatrixRef_rows_def
      SparseArrayRef_size_def SparseArrayRef_length_def TensorRef_length_def row_slice_def
      nullQ_def upt_conv_Cons)

text \<open>
  C2, evaluated where the code departs from it. The loops of \<open>begin()\<close> and
  \<open>operator++\<close> stop when the row index reaches \<open>size()\<close>, the number of explicit
  entries, not the number of rows. In \<open>last_row_matrix\<close> the only entry is in row 2
  (rows 0 and 1 are empty) and \<open>begin()\<close> stops at row 1; in \<open>gap_matrix\<close> the entry at
  offset 1 is in row 3 and the increment from the first entry stops at row 2.
\<close>

theorem iterator_reports_wrong_row:
  "SparseMatrixRef_begin last_row_matrix = Inr \<lparr>row_index = 1, index = 0\<rparr>
   \<and> row_slice last_row_matrix 0 = [] \<and> row_slice last_row_matrix 1 = []
   \<and> row_slice last_row_matrix 2 = [1]
   \<and> SparseMatrixRef_begin gap_matrix = Inr \<lparr>row_index = 0, index = 0\<rparr>
   \<and> iterator_increment gap_matrix \<lparr>row_index = 0, index = 0\<rparr>
       = Inr \<lparr>row_index = 2, index = 1\<rparr>
   \<and> row_slice gap_matrix 2 = [] \<and> row_slice gap_matrix 3 = [1]"
  by (simp add: SparseMatrixRef_begin_def begin_loop.simps iterator_increment_def
      increment_loop.simps at_def last_row_matrix_def gap_matrix_def row_slice_def
      SparseArrayRef_size_def SparseArrayRef_length_def TensorRef_length_def)


section \<open>Factories and host calls\<close>

lemma MTensor_new_ok:
  "pending_errors h = [] \<Longrightarrow>
   MTensor_new ty rnk dims h =
     (0, Some (next_handle h),
      h\<lparr>pending_errors := [],
        tensors := (tensors h)(next_handle h \<mapsto>
          \<lparr>tensor_rank = rnk, tensor_dims = dims, tensor_elems = zeros ty (nat (prod_list dims))\<rparr>),
        next_handle := Suc (next_handle h)\<rparr>)"
  by (simp add: MTensor_new_def)

lemma TensorRef_T_not_null: "TensorRef_T h mt = Inr tr \<Longrightarrow> \<not> nullQ tr"
  by (auto simp: TensorRef_T_def nullQ_def split: sum.splits)

lemma TensorRef_mint_len:
  "TensorRef_mint h mt = Inr tr \<Longrightarrow> MTensor_getFlattenedLength h mt = Inr (TensorRef.len tr)"
  by (auto simp: TensorRef_mint_def split: sum.splits)

lemma ctor_explicit_values:
  assumes "sparse_arrays h a = Some obj" "SparseArrayRef_ctor a h = (Inr s, h')"
    and "sp_explicitValues obj = Some e"
  shows "explicitValuesQ s"
proof -
  obtain g where "getExplicitValues g obj = Inr (ev s)"
    using assms(1,2)
    by (auto simp: SparseArrayRef_ctor_def split: option.splits sum.splits prod.splits)
  then have "TensorRef_T g e = Inr (ev s)" using assms(3) by (simp add: getExplicitValues_def)
  then show ?thesis using TensorRef_T_not_null by (auto simp: explicitValuesQ_def)
qed

lemma ctor_column_indices:
  assumes "sparse_arrays h a = Some obj" "SparseArrayRef_ctor a h = (Inr s, h')"
  shows "\<exists>g. getColumnIndices a obj h = (Inr (ci s), g)"
  using assms
  by (auto simp: SparseArrayRef_ctor_def split: option.splits sum.splits prod.splits)

lemma ctor_length_absent:
  assumes "sparse_arrays h a = Some obj" "SparseArrayRef_ctor a h = (Inr s, h')"
    and "sp_columnIndices obj = None" "pending_errors h = []"
  shows "SparseArrayRef_length s = 0"
proof -
  obtain g where "getColumnIndices a obj h = (Inr (ci s), g)"
    using ctor_column_indices [OF assms(1,2)] by blast
  moreover have "fst (getColumnIndices a obj h) =
      Inr \<lparr>tensor = Some (next_handle h), tensor_data = [], TensorRef.len = 0\<rparr>"
    using assms(3)
    by (simp add: getColumnIndices_def MTensor_new_ok [OF assms(4)] TensorRef_mint_def
        getData_mint_def zeros_def MTensor_getFlattenedLength_def Let_def)
  ultimately have "ci s = \<lparr>tensor = Some (next_handle h), tensor_data = [], TensorRef.len = 0\<rparr>"
    by simp
  then have "TensorRef.len (ci s) = 0" by simp
  then show ?thesis by (simp add: SparseArrayRef_length_def TensorRef_length_def)
qed

lemma ctor_length_present:
  assumes "sparse_arrays h a = Some obj" "SparseArrayRef_ctor a h = (Inr s, h')"
    and "sp_columnIndices obj = Some c" "MTensor_getFlattenedLength h c = Inr k"
  shows "SparseArrayRef_length s = k"
proof -
  obtain g where "getColumnIndices a obj h = (Inr (ci s), g)"
    using ctor_column_indices [OF assms(1,2)] by blast
  moreover have "fst (getColumnIndices a obj h) = TensorRef_mint h c"
    using assms(3) by (simp add: getColumnIndices_def)
  ultimately have "TensorRef_mint h c = Inr (ci s)" by simp
  then have "TensorRef.len (ci s) = k"
    using TensorRef_mint_len assms(4) by fastforce
  then show ?thesis by (simp add: SparseArrayRef_length_def TensorRef_length_def)
qed

text \<open>
  When the host's \<open>MSparseArray_fromExplicitPositions\<close> succeeded, built an array
  without column indices (\<open>no_column_index\<close>), and the host has no allocation failure
  to report afterwards, the view that \<open>makeSparseArray\<close> returns has explicit values
  and length 0, whether or not the host built a pattern array.
\<close>

lemma makeSparseArray_never_pattern:
  assumes ret: "makeSparseArray fep pos vals dims imp h = (Inr s, h')"
    and alloc: "MTensor_new MType_Element 0 [] h = (0, Some it, g1)"
    and wr: "write_T it 0 imp g1 = Inr g2"
    and host: "fep (tensor pos) (tensor vals) (tensor dims) it g2 = (0, Some a, g3)"
    and built: "sparse_arrays g3 a = Some obj"
    and sched: "pending_errors g3 = []"
    and nopos: "no_column_index g3 it obj"
  shows "explicitValuesQ s \<and> SparseArrayRef_length s = 0"
proof -
  let ?g4 = "MTensor_free it g3"
  have m1: "massert (MatrixRef_cols pos = TensorRef_size dims) = Inr ()"
    using ret by (cases "MatrixRef_cols pos = TensorRef_size dims")
      (simp_all add: makeSparseArray_def massert_def)
  have m2: "massert (MatrixRef_rows pos = TensorRef_size vals) = Inr ()"
    using ret m1 by (cases "MatrixRef_rows pos = TensorRef_size vals")
      (simp_all add: makeSparseArray_def massert_def)
  have b4: "sparse_arrays ?g4 a = Some obj" and p4: "pending_errors ?g4 = []"
    and n4: "next_handle ?g4 = next_handle g3"
    using built sched by (simp_all add: MTensor_free_def)
  have code: "makeSparseArray fep pos vals dims imp h =
      (if sp_explicitValues obj = None
       then (case MTensor_new MType_Element 1 [0] ?g4 of
               (err3, r3, h5) \<Rightarrow>
                 SparseArrayRef_ctor a
                   (h5\<lparr>sparse_arrays := (sparse_arrays h5)(a \<mapsto> obj\<lparr>sp_explicitValues := r3\<rparr>)\<rparr>))
       else SparseArrayRef_ctor a ?g4)"
    by (simp add: makeSparseArray_def m1 m2 alloc wr host b4 Let_def)
  show ?thesis
  proof (cases "sp_explicitValues obj")
    case (Some e)
    then have c: "SparseArrayRef_ctor a ?g4 = (Inr s, h')" using ret code by simp
    have "SparseArrayRef_length s = 0"
    proof (cases "sp_columnIndices obj")
      case None
      then show ?thesis using ctor_length_absent [OF b4 c _ p4] by simp
    next
      case (Some c')
      then have "MTensor_getFlattenedLength ?g4 c' = Inr 0"
        using nopos by (simp add: no_column_index_def MTensor_getFlattenedLength_def MTensor_free_def)
      then show ?thesis using ctor_length_present [OF b4 c Some] by simp
    qed
    then show ?thesis using ctor_explicit_values [OF b4 c Some] by simp
  next
    case None
    let ?e = "next_handle g3"
    let ?obj = "obj\<lparr>sp_explicitValues := Some ?e\<rparr>"
    let ?g5 = "?g4\<lparr>pending_errors := [],
        tensors := (tensors ?g4)(?e \<mapsto>
          \<lparr>tensor_rank = 1, tensor_dims = [0], tensor_elems = zeros MType_Element (nat (prod_list [0]))\<rparr>),
        next_handle := Suc ?e\<rparr>"
    let ?g6 = "?g5\<lparr>sparse_arrays := (sparse_arrays ?g5)(a \<mapsto> ?obj)\<rparr>"
    have c: "SparseArrayRef_ctor a ?g6 = (Inr s, h')"
      using ret code None by (simp add: MTensor_new_ok [OF p4] n4)
    have b6: "sparse_arrays ?g6 a = Some ?obj" by simp
    have p6: "pending_errors ?g6 = []" by simp
    have "SparseArrayRef_length s = 0"
    proof (cases "sp_columnIndices obj")
      case None
      then show ?thesis using ctor_length_absent [OF b6 c _ p6] by simp
    next
      case (Some c')
      then have "MTensor_getFlattenedLength ?g6 c' = Inr 0"
        using nopos by (simp add: no_column_index_def MTensor_getFlattenedLength_def MTensor_free_def)
      moreover have "sp_columnIndices ?obj = Some c'" using Some by simp
      ultimately show ?thesis using ctor_length_present [OF b6 c] by simp
    qed
    moreover have "explicitValuesQ s"
      using ctor_explicit_values [OF b6 c, of ?e] by simp
    ultimately show ?thesis by simp
  qed
qed


lemma makeSparseArray_no_positions:
  "fst (makeSparseArray pattern_fromExplicitPositions no_positions no_values dimensions_3 5
          argument_host)
     = Inr \<lparr>sa = 4,
            rp = \<lparr>tensor = Some 5, tensor_data = [0, 0], TensorRef.len = 2\<rparr>,
            ci = \<lparr>tensor = Some 8, tensor_data = [], TensorRef.len = 0\<rparr>,
            ev = \<lparr>tensor = Some 7, tensor_data = [], TensorRef.len = 0\<rparr>,
            iv = 5\<rparr>
   \<and> explicitValuesQ
        (projr (fst (makeSparseArray pattern_fromExplicitPositions no_positions no_values
           dimensions_3 5 argument_host)))
   \<and> SparseArrayRef_length
        (projr (fst (makeSparseArray pattern_fromExplicitPositions no_positions no_values
           dimensions_3 5 argument_host))) = 0"
proof -
  define g1 where "g1 = argument_host\<lparr>pending_errors := [],
      tensors := (tensors argument_host)(3 \<mapsto>
        \<lparr>tensor_rank = 0, tensor_dims = [], tensor_elems = ElementData [0]\<rparr>),
      next_handle := 4\<rparr>"
  define g2 where "g2 = g1\<lparr>tensors := (tensors g1)(3 \<mapsto>
        \<lparr>tensor_rank = 0, tensor_dims = [], tensor_elems = ElementData [5]\<rparr>)\<rparr>"
  define obj where "obj = \<lparr>sp_rowPointers = Some 5, sp_columnIndices = None,
      sp_explicitValues = None, sp_implicitValue = Some 6, sp_rank = 1, sp_dims = [3]\<rparr>"
  define g3 where "g3 = g2\<lparr>tensors := (tensors g2)
        (5 \<mapsto> \<lparr>tensor_rank = 1, tensor_dims = [2], tensor_elems = IntegerData [0, 0]\<rparr>,
         6 \<mapsto> \<lparr>tensor_rank = 0, tensor_dims = [], tensor_elems = ElementData [5]\<rparr>),
      sparse_arrays := (sparse_arrays g2)(4 \<mapsto> obj),
      next_handle := 7\<rparr>"
  have alloc: "MTensor_new MType_Element 0 [] argument_host = (0, Some 3, g1)"
    by (simp add: MTensor_new_def argument_host_def g1_def zeros_def)
  have wr: "write_T 3 0 5 g1 = Inr g2"
    by (simp add: write_T_def getData_T_def store_T_def g1_def g2_def)
  have host: "pattern_fromExplicitPositions (tensor no_positions) (tensor no_values)
      (tensor dimensions_3) 3 g2 = (0, Some 4, g3)"
    by (simp add: pattern_fromExplicitPositions_def g3_def g2_def g1_def obj_def getData_T_def
        Let_def)
  have built: "sparse_arrays g3 4 = Some obj" by (simp add: g3_def)
  have sched: "pending_errors g3 = []" by (simp add: g3_def g2_def g1_def)
  have nopos: "no_column_index g3 3 obj" by (simp add: no_column_index_def obj_def)
  have val: "fst (makeSparseArray pattern_fromExplicitPositions no_positions no_values
      dimensions_3 5 argument_host)
     = Inr \<lparr>sa = 4,
            rp = \<lparr>tensor = Some 5, tensor_data = [0, 0], TensorRef.len = 2\<rparr>,
            ci = \<lparr>tensor = Some 8, tensor_data = [], TensorRef.len = 0\<rparr>,
            ev = \<lparr>tensor = Some 7, tensor_data = [], TensorRef.len = 0\<rparr>,
            iv = 5\<rparr>"
    by (simp add: makeSparseArray_def massert_def MatrixRef_cols_def MatrixRef_rows_def
        TensorRef_size_def TensorRef_length_def no_positions_def no_values_def dimensions_3_def
        write_T_def store_T_def pattern_fromExplicitPositions_def
        MTensor_free_def MTensor_new_def zeros_def
        SparseArrayRef_ctor_def TensorRef_mint_def getData_mint_def MTensor_getFlattenedLength_def
        getColumnIndices_def getExplicitValues_def TensorRef_T_def getData_T_def
        getImplicitValue_def argument_host_def Let_def)
  then obtain s h' where ret: "makeSparseArray pattern_fromExplicitPositions no_positions
      no_values dimensions_3 5 argument_host = (Inr s, h')"
    by (metis prod.collapse)
  from makeSparseArray_never_pattern [where fep = pattern_fromExplicitPositions, OF ret
      alloc wr host built sched nopos]
  have "explicitValuesQ s \<and> SparseArrayRef_length s = 0" .
  then show ?thesis using val ret by simp
qed


text \<open>
  C5, evaluated where the code departs from it. \<open>makeSparseArray\<close> tests the return
  code of the \<open>MTensor_new\<close> that allocates the implicit-value tensor and drops the
  return code of the \<open>MTensor_new\<close> that inserts the empty explicit-values tensor. In
  \<open>allocation_failure_host\<close> the first succeeds and the second fails: called with a
  position matrix of no row, the factory throws nothing and returns a view whose
  explicit-values member is the null \<open>TensorRef\<close>, a pattern array.
\<close>

theorem makeSparseArray_returns_pattern_array:
  "MatrixRef_rows no_positions = 0
   \<and> TensorRef_size no_values = 0
   \<and> fst (makeSparseArray pattern_fromExplicitPositions no_positions no_values dimensions_3 5
          allocation_failure_host)
     = Inr \<lparr>sa = 4,
            rp = \<lparr>tensor = Some 5, tensor_data = [0, 0], TensorRef.len = 2\<rparr>,
            ci = \<lparr>tensor = Some 7, tensor_data = [], TensorRef.len = 0\<rparr>,
            ev = TensorRef_null,
            iv = 5\<rparr>
   \<and> explicitValuesQ
        (projr (fst (makeSparseArray pattern_fromExplicitPositions no_positions no_values
           dimensions_3 5 allocation_failure_host))) = False"
  by (simp add: makeSparseArray_def massert_def MatrixRef_cols_def MatrixRef_rows_def
      TensorRef_size_def TensorRef_length_def no_positions_def no_values_def dimensions_3_def
      write_T_def store_T_def pattern_fromExplicitPositions_def
      MTensor_free_def MTensor_new_def zeros_def allocation_failure_host_def
      SparseArrayRef_ctor_def TensorRef_mint_def getData_mint_def MTensor_getFlattenedLength_def
      getColumnIndices_def getExplicitValues_def TensorRef_T_def getData_T_def
      getImplicitValue_def argument_host_def Let_def explicitValuesQ_def nullQ_def
      TensorRef_null_def)

lemma resetImplicitValue_failure_state:
  assumes "MTensor_new MType_Element 0 [] h = (0, Some it, g1)"
    and "write_T it 0 v g1 = Inr g2"
    and "reset (sa s) (Some it) g2 = (err, r, g3)" and "err \<noteq> 0"
  shows "resetImplicitValue reset s v h =
           (throw_err ''MSparseArray_resetImplicitValue() failed.'' err, g3)"
  using assms by (simp add: resetImplicitValue_def)

lemma makeSparseArray_failure_state:
  assumes "MatrixRef_cols pos = TensorRef_size dims" and "MatrixRef_rows pos = TensorRef_size vals"
    and "MTensor_new MType_Element 0 [] h = (0, Some it, g1)"
    and "write_T it 0 imp g1 = Inr g2"
    and "fep (tensor pos) (tensor vals) (tensor dims) it g2 = (err, r, g3)" and "err \<noteq> 0"
  shows "makeSparseArray fep pos vals dims imp h =
           (throw_err ''makeSparseArray: MSparseArray_fromExplicitPositions() failed.'' err,
            MTensor_free it g3)"
  using assms by (simp add: makeSparseArray_def massert_def Let_def)

text \<open>
  C6, evaluated where the code departs from it. When the host's reset routine fails,
  \<open>resetImplicitValue(iv)\<close> throws and the rank-0 tensor it allocated (handle 5, not
  live before the call) is still live afterwards; when a row of the nested literal is
  shorter than the first, \<open>makeMatrix\<close> throws from its \<open>massert\<close> and the tensor it
  allocated (handle 0) is still live, partly filled.
\<close>

theorem temporaries_leak_on_error:
  "fst (resetImplicitValue failing_resetImplicitValue example_matrix 7 example_host)
     = throw_err ''MSparseArray_resetImplicitValue() failed.'' LIBRARY_FUNCTION_ERROR
   \<and> tensors example_host 5 = None
   \<and> tensors (snd (resetImplicitValue failing_resetImplicitValue example_matrix 7 example_host)) 5
     = Some \<lparr>tensor_rank = 0, tensor_dims = [], tensor_elems = ElementData [7]\<rparr>
   \<and> fst (makeMatrix_list [[1, 2], [3]] empty_host)
     = Inl (Thrown (LibraryError_code LIBRARY_FUNCTION_ERROR))
   \<and> tensors empty_host 0 = None
   \<and> tensors (snd (makeMatrix_list [[1, 2], [3]] empty_host)) 0
     = Some \<lparr>tensor_rank = 2, tensor_dims = [2, 2], tensor_elems = ElementData [1, 2, 0, 0]\<rparr>"
  by (simp add: resetImplicitValue_def failing_resetImplicitValue_def example_host_def
      example_matrix_def MTensor_new_def zeros_def write_T_def getData_T_def store_T_def
      LIBRARY_FUNCTION_ERROR_def throw_err_def
      makeMatrix_list_def makeMatrix_def makeTensor_def empty_host_def TensorRef_T_def
      MTensor_getFlattenedLength_def MatrixRef_ctor_def TensorRef_rank_def MTensor_getRank_def
      TensorRef_dimensions_def MTensor_getDimensions_def MatrixRef_cols_def massert_def
      numeral_2_eq_2 numeral_3_eq_3 eval_nat_numeral)

lemma makeMatrix_mint_ok:
  assumes "pending_errors h = []"
  shows "makeMatrix TensorRef_mint MType_Integer a b h =
     (Inr \<lparr>tensor = Some (next_handle h), tensor_data = replicate (nat (a * b)) 0,
           TensorRef.len = a * b, MatrixRef.nrows = a, MatrixRef.ncols = b\<rparr>,
      h\<lparr>pending_errors := [],
        tensors := (tensors h)(next_handle h \<mapsto>
          \<lparr>tensor_rank = 2, tensor_dims = [a, b],
           tensor_elems = IntegerData (replicate (nat (a * b)) 0)\<rparr>),
        next_handle := Suc (next_handle h)\<rparr>)"
  by (simp add: makeMatrix_def makeTensor_def MTensor_new_ok [OF assms] zeros_def
      TensorRef_mint_def getData_mint_def MTensor_getFlattenedLength_def MatrixRef_ctor_def
      TensorRef_rank_def MTensor_getRank_def TensorRef_dimensions_def MTensor_getDimensions_def)

text \<open>
  C10. Let the host's \<open>MSparseArray_getExplicitPositions\<close> succeed and give either the
  \<open>n\<close>-by-\<open>rank\<close> integer matrix of the \<open>n\<close> explicit positions or, when there is none
  (\<open>n = 0\<close>), a rank-0 tensor. Then \<open>explicitPositions()\<close> returns a view of a live
  rank-2 tensor of dimensions \<open>{n, rank}\<close>; in the second case that tensor is freshly
  allocated and empty, and the host's rank-0 tensor has been freed. (In the second case
  the allocation is taken to succeed and the host's tensor to lie below the next fresh
  address.)
\<close>

theorem explicitPositions_is_matrix:
  assumes call: "gep (sa s) h = (0, Some mt, g)"
    and live: "tensors g mt = Some obj"
    and shape: "(tensor_rank obj = 0 \<and> n = 0 \<and> pending_errors g = [] \<and> mt < next_handle g)
        \<or> (tensor_rank obj = 2 \<and> tensor_dims obj = [n, r] \<and> tensor_elems obj = IntegerData xs)"
    and rnk: "SparseArrayRef_rank g s = Inr r"
  shows "\<exists>tr h' t res.
           explicitPositions gep s h = (Inr tr, h')
           \<and> tensor tr = Some t \<and> tensors h' t = Some res
           \<and> tensor_rank res = 2 \<and> tensor_dims res = [n, r]
           \<and> (tensor_rank obj = 0 \<longrightarrow>
                t = next_handle g \<and> tensors h' mt = None \<and> tensor_data tr = [])"
proof -
  have gr: "MTensor_getRank g mt = Inr (tensor_rank obj)"
    using live by (simp add: MTensor_getRank_def)
  from shape show ?thesis
  proof
    assume a: "tensor_rank obj = 0 \<and> n = 0 \<and> pending_errors g = [] \<and> mt < next_handle g"
    let ?g2 = "MTensor_free mt g"
    have p: "pending_errors ?g2 = []" and nx: "next_handle ?g2 = next_handle g"
      and tn: "tensors ?g2 = (tensors g)(mt := None)"
      using a by (simp_all add: MTensor_free_def)
    have rk: "SparseArrayRef_rank ?g2 s = Inr r"
      using rnk by (simp add: SparseArrayRef_rank_def MTensor_free_def)
    have ne: "mt \<noteq> next_handle g" using a by simp
    have "explicitPositions gep s h =
        (case makeMatrix TensorRef_mint MType_Integer 0 r ?g2 of
           (Inl e, h3) \<Rightarrow> (Inl e, h3)
         | (Inr m, h3) \<Rightarrow> (Inr (TensorRef.truncate m), h3))"
      using a by (simp add: explicitPositions_def call gr rk Let_def)
    then show ?thesis
      using a ne by (simp add: makeMatrix_mint_ok [OF p] nx tn TensorRef.truncate_def)
  next
    assume a: "tensor_rank obj = 2 \<and> tensor_dims obj = [n, r] \<and> tensor_elems obj = IntegerData xs"
    have "explicitPositions gep s h = (TensorRef_mint g mt, g)"
      using a by (simp add: explicitPositions_def call gr)
    then show ?thesis
      using a live
      by (simp add: TensorRef_mint_def getData_mint_def MTensor_getFlattenedLength_def)
  qed
qed

theorem explicitPositions_is_matrix_witness:
  "fst (explicitPositions rank0_getExplicitPositions empty_matrix example_host)
     = Inr \<lparr>tensor = Some 6, tensor_data = [], TensorRef.len = 0\<rparr>
   \<and> tensors (snd (explicitPositions rank0_getExplicitPositions empty_matrix example_host)) 6
     = Some \<lparr>tensor_rank = 2, tensor_dims = [0, 2], tensor_elems = IntegerData []\<rparr>
   \<and> tensors (snd (explicitPositions rank0_getExplicitPositions empty_matrix example_host)) 5
     = None"
proof -
  define h1 where "h1 = example_host\<lparr>tensors := (tensors example_host)(5 \<mapsto>
             \<lparr>tensor_rank = 0, tensor_dims = [], tensor_elems = IntegerData [0]\<rparr>),
        next_handle := 6\<rparr>"
  define obj :: "int tensor_obj"
    where "obj = \<lparr>tensor_rank = 0, tensor_dims = [], tensor_elems = IntegerData [0]\<rparr>"
  have call: "rank0_getExplicitPositions (sa empty_matrix) example_host = (0, Some 5, h1)"
    by (simp add: rank0_getExplicitPositions_def example_host_def h1_def)
  have live: "tensors h1 5 = Some obj"
    by (simp add: h1_def obj_def)
  have rnk: "SparseArrayRef_rank h1 empty_matrix = Inr 2"
    by (simp add: SparseArrayRef_rank_def empty_matrix_def example_host_def h1_def)
  have shape: "(tensor_rank obj = 0 \<and> (0::int) = 0 \<and> pending_errors h1 = [] \<and> 5 < next_handle h1)
        \<or> (tensor_rank obj = 2 \<and> tensor_dims obj = [0, 2] \<and> tensor_elems obj = IntegerData [])"
    by (simp add: h1_def obj_def example_host_def)
  have t6: "tensors example_host 6 = None" by (simp add: example_host_def)
  from explicitPositions_is_matrix [where gep = rank0_getExplicitPositions and s = empty_matrix
      and h = example_host and mt = 5 and g = h1 and obj = obj and n = 0 and r = 2 and xs = "[]",
      OF call live shape rnk]
  obtain tr h' t res where
    e: "explicitPositions rank0_getExplicitPositions empty_matrix example_host = (Inr tr, h')"
    and f: "tensor tr = Some t" "tensors h' t = Some res" "tensor_rank res = 2"
      "tensor_dims res = [0, 2]"
      "tensor_rank obj = 0 \<longrightarrow> t = next_handle h1 \<and> tensors h' 5 = None \<and> tensor_data tr = []"
    by blast
  have "fst (explicitPositions rank0_getExplicitPositions empty_matrix example_host)
     = Inr \<lparr>tensor = Some 6, tensor_data = [], TensorRef.len = 0\<rparr>
   \<and> tensors (snd (explicitPositions rank0_getExplicitPositions empty_matrix example_host)) 6
     = Some \<lparr>tensor_rank = 2, tensor_dims = [0, 2], tensor_elems = IntegerData []\<rparr>"
    by (simp add: explicitPositions_def rank0_getExplicitPositions_def example_host_def
        empty_matrix_def MTensor_getRank_def MTensor_free_def SparseArrayRef_rank_def
        makeMatrix_def makeTensor_def MTensor_new_def zeros_def TensorRef_mint_def
        getData_mint_def MTensor_getFlattenedLength_def MatrixRef_ctor_def TensorRef_rank_def
        TensorRef_dimensions_def MTensor_getDimensions_def TensorRef.truncate_def)
  moreover have "tensors h' 5 = None" using f(5) by (simp add: obj_def)
  ultimately show ?thesis using e by simp
qed

section \<open>Image indexing and pixel iterators\<close>

lemma radix_bound:
  fixes a b A B :: int
  assumes "0 \<le> a" "a < A" "0 \<le> b" "b < B"
  shows "0 \<le> a * B + b" and "a * B + b < A * B"
proof -
  have B: "0 < B" using assms by linarith
  show "0 \<le> a * B + b" using assms B by simp
  have "a * B + b < a * B + B" using assms by simp
  also have "\<dots> = (a + 1) * B" by (simp add: algebra_simps)
  also have "\<dots> \<le> A * B" using assms B by (intro mult_right_mono) auto
  finally show "a * B + b < A * B" .
qed

lemma pixel_write_read:
  "0 \<le> k \<Longrightarrow> k < int (length (image_data img)) \<Longrightarrow>
   \<exists>img'. pixel_write img k v = Inr img' \<and> pixel_read img' k = Inr v"
  by (simp add: pixel_write_def pixel_read_def)

lemma ImageRef_index_bounds:
  assumes ok: "image_shape_ok img" and two: "slices img = 1"
    and r: "0 \<le> row" "row < GenericImageRef_rows img"
    and c: "0 \<le> col" "col < GenericImageRef_cols img"
    and ch: "0 \<le> channel" "channel < channels img"
  shows "0 \<le> ImageRef_index img row col channel"
    and "ImageRef_index img row col channel < int (length (image_data img))"
proof -
  let ?R = "GenericImageRef_rows img" and ?C = "GenericImageRef_cols img" and ?N = "channels img"
  have len: "int (length (image_data img)) = ?R * ?C * ?N"
    using ok two by (simp add: image_shape_ok_def channelSize_def)
  note rc = radix_bound [OF r c]
  note i1 = radix_bound [OF rc ch]
  note cr = radix_bound [OF ch r]
  note i2 = radix_bound [OF cr c]
  have e1: "row * ?C * ?N + col * ?N + channel = (row * ?C + col) * ?N + channel"
    by (simp add: algebra_simps)
  have e2: "channel * ?R * ?C + row * ?C + col = (channel * ?R + row) * ?C + col"
    by (simp add: algebra_simps)
  have e3: "?N * ?R * ?C = ?R * ?C * ?N" by simp
  show "0 \<le> ImageRef_index img row col channel"
    using i1(1) i2(1) by (simp add: ImageRef_index_def e1 e2)
  show "ImageRef_index img row col channel < int (length (image_data img))"
    using i1(2) i2(2) unfolding len ImageRef_index_def e1 e2 e3 by simp
qed

lemma Image3DRef_index_bounds:
  assumes ok: "image_shape_ok img"
    and s: "0 \<le> slice" "slice < slices img"
    and r: "0 \<le> row" "row < GenericImageRef_rows img"
    and c: "0 \<le> col" "col < GenericImageRef_cols img"
    and ch: "0 \<le> channel" "channel < channels img"
  shows "0 \<le> Image3DRef_index img slice row col channel"
    and "Image3DRef_index img slice row col channel < int (length (image_data img))"
proof -
  let ?S = "slices img"
  let ?R = "GenericImageRef_rows img" and ?C = "GenericImageRef_cols img" and ?N = "channels img"
  have len: "int (length (image_data img)) = ?S * ?R * ?C * ?N"
    using ok by (simp add: image_shape_ok_def channelSize_def)
  note sr = radix_bound [OF s r]
  note src = radix_bound [OF sr c]
  note i1 = radix_bound [OF src ch]
  note cs = radix_bound [OF ch s]
  note csr = radix_bound [OF cs r]
  note i2 = radix_bound [OF csr c]
  have e1: "slice * ?R * ?C * ?N + row * ?C * ?N + col * ?N + channel
      = ((slice * ?R + row) * ?C + col) * ?N + channel"
    by (simp add: algebra_simps)
  have e2: "channel * ?S * ?R * ?C + slice * ?R * ?C + row * ?C + col
      = ((channel * ?S + slice) * ?R + row) * ?C + col"
    by (simp add: algebra_simps)
  have e3: "?N * ?S * ?R * ?C = ?S * ?R * ?C * ?N" by simp
  show "0 \<le> Image3DRef_index img slice row col channel"
    using i1(1) i2(1) by (simp add: Image3DRef_index_def e1 e2)
  show "Image3DRef_index img slice row col channel < int (length (image_data img))"
    using i1(2) i2(2) unfolding len Image3DRef_index_def e1 e2 e3 by simp
qed

text \<open>
  C7. For an image view whose buffer has \<open>slices * rows * cols * channels\<close> pixels and
  a pixel coordinate in range, the 2-D and the 3-D \<open>operator()\<close> address the offsets
  of the four layout formulas, and in either layout a write through \<open>operator()\<close>
  followed by a read at the same coordinate succeeds and yields the value written
  (the 2-D part for an image of one slice, the 3-D part for a slice in range).
\<close>

theorem image_index_layouts:
  assumes "image_shape_ok img"
    and "0 \<le> row" "row < GenericImageRef_rows img"
    and "0 \<le> col" "col < GenericImageRef_cols img"
    and "0 \<le> channel" "channel < channels img"
  shows "ImageRef_index img row col channel =
           (if interleavedQ img
            then row * GenericImageRef_cols img * channels img + col * channels img + channel
            else channel * GenericImageRef_rows img * GenericImageRef_cols img
                 + row * GenericImageRef_cols img + col)
    \<and> ImageRef_get img row col channel = pixel_read img (ImageRef_index img row col channel)
    \<and> (slices img = 1 \<longrightarrow>
          (\<exists>img'. ImageRef_set img row col channel v = Inr img'
                 \<and> ImageRef_get img' row col channel = Inr v))
    \<and> Image3DRef_index img slice row col channel =
           (if interleavedQ img
            then slice * GenericImageRef_rows img * GenericImageRef_cols img * channels img
                 + row * GenericImageRef_cols img * channels img + col * channels img + channel
            else channel * slices img * GenericImageRef_rows img * GenericImageRef_cols img
                 + slice * GenericImageRef_rows img * GenericImageRef_cols img
                 + row * GenericImageRef_cols img + col)
    \<and> Image3DRef_get img slice row col channel =
           pixel_read img (Image3DRef_index img slice row col channel)
    \<and> (0 \<le> slice \<and> slice < slices img \<longrightarrow>
          (\<exists>img'. Image3DRef_set img slice row col channel v = Inr img'
                 \<and> Image3DRef_get img' slice row col channel = Inr v))"
proof -
  have i2: "ImageRef_index img row col channel =
           (if interleavedQ img
            then row * GenericImageRef_cols img * channels img + col * channels img + channel
            else channel * GenericImageRef_rows img * GenericImageRef_cols img
                 + row * GenericImageRef_cols img + col)"
    by (simp add: ImageRef_index_def)
  have g2: "ImageRef_get img row col channel = pixel_read img (ImageRef_index img row col channel)"
    by (simp add: ImageRef_get_def)
  have i3: "Image3DRef_index img slice row col channel =
           (if interleavedQ img
            then slice * GenericImageRef_rows img * GenericImageRef_cols img * channels img
                 + row * GenericImageRef_cols img * channels img + col * channels img + channel
            else channel * slices img * GenericImageRef_rows img * GenericImageRef_cols img
                 + slice * GenericImageRef_rows img * GenericImageRef_cols img
                 + row * GenericImageRef_cols img + col)"
    by (simp add: Image3DRef_index_def)
  have g3: "Image3DRef_get img slice row col channel =
           pixel_read img (Image3DRef_index img slice row col channel)"
    by (simp add: Image3DRef_get_def)
  have r2: "\<exists>img'. ImageRef_set img row col channel v = Inr img'
                 \<and> ImageRef_get img' row col channel = Inr v" if two: "slices img = 1"
  proof -
    note b = ImageRef_index_bounds [OF assms(1) two assms(2-7)]
    obtain img' where w: "pixel_write img (ImageRef_index img row col channel) v = Inr img'"
      and rd: "pixel_read img' (ImageRef_index img row col channel) = Inr v"
      using pixel_write_read [OF b] by blast
    have "ImageRef_index img' row col channel = ImageRef_index img row col channel"
      using w by (auto simp: pixel_write_def ImageRef_index_def interleavedQ_def channels_def
          GenericImageRef_rows_def GenericImageRef_cols_def split: if_splits)
    then show ?thesis using w rd by (simp add: ImageRef_set_def ImageRef_get_def)
  qed
  have r3: "\<exists>img'. Image3DRef_set img slice row col channel v = Inr img'
                 \<and> Image3DRef_get img' slice row col channel = Inr v"
    if s: "0 \<le> slice \<and> slice < slices img"
  proof -
    have s1: "0 \<le> slice" and s2: "slice < slices img" using s by simp_all
    note b = Image3DRef_index_bounds [OF assms(1) s1 s2 assms(2-7)]
    obtain img' where w: "pixel_write img (Image3DRef_index img slice row col channel) v = Inr img'"
      and rd: "pixel_read img' (Image3DRef_index img slice row col channel) = Inr v"
      using pixel_write_read [OF b] by blast
    have "Image3DRef_index img' slice row col channel = Image3DRef_index img slice row col channel"
      using w by (auto simp: pixel_write_def Image3DRef_index_def interleavedQ_def channels_def
          slices_def GenericImageRef_rows_def GenericImageRef_cols_def split: if_splits)
    then show ?thesis using w rd by (simp add: Image3DRef_set_def Image3DRef_get_def)
  qed
  show ?thesis using i2 g2 i3 g3 r2 r3 by blast
qed

lemma example_image_ok: "image_shape_ok (example_image il)"
  by (simp add: image_shape_ok_def example_image_def slices_def GenericImageRef_rows_def
      GenericImageRef_cols_def channels_def channelSize_def)

lemma example_image3D_ok: "image_shape_ok (example_image3D il)"
  by (simp add: image_shape_ok_def example_image3D_def slices_def GenericImageRef_rows_def
      GenericImageRef_cols_def channels_def channelSize_def)

theorem image_index_layouts_witness:
  "ImageRef_index (example_image True) 0 0 1 = 1
   \<and> ImageRef_index (example_image False) 0 0 1 = 4
   \<and> (\<exists>img'. ImageRef_set (example_image True) 0 0 1 200 = Inr img'
          \<and> ImageRef_get img' 0 0 1 = Inr 200)
   \<and> (\<exists>img'. ImageRef_set (example_image False) 0 0 1 200 = Inr img'
          \<and> ImageRef_get img' 0 0 1 = Inr 200)
   \<and> Image3DRef_index (example_image3D True) 1 0 1 1 = 11
   \<and> Image3DRef_index (example_image3D False) 1 0 1 1 = 13
   \<and> (\<exists>img'. Image3DRef_set (example_image3D False) 1 0 1 1 200 = Inr img'
          \<and> Image3DRef_get img' 1 0 1 1 = Inr 200)"
proof -
  have d: "GenericImageRef_rows (example_image il) = 2" "GenericImageRef_cols (example_image il) = 2"
    "channels (example_image il) = 2" "slices (example_image il) = 1"
    "interleavedQ (example_image il) = il"
    "GenericImageRef_rows (example_image3D il) = 2" "GenericImageRef_cols (example_image3D il) = 2"
    "channels (example_image3D il) = 2" "slices (example_image3D il) = 2"
    "interleavedQ (example_image3D il) = il" for il
    by (simp_all add: example_image_def example_image3D_def GenericImageRef_rows_def
        GenericImageRef_cols_def channels_def slices_def interleavedQ_def)
  show ?thesis
    using image_index_layouts [where img = "example_image True" and row = 0 and col = 0
            and channel = 1 and v = 200 and slice = 0, OF example_image_ok]
          image_index_layouts [where img = "example_image False" and row = 0 and col = 0
            and channel = 1 and v = 200 and slice = 0, OF example_image_ok]
          image_index_layouts [where img = "example_image3D True" and row = 0 and col = 1
            and channel = 1 and v = 200 and slice = 1, OF example_image3D_ok]
          image_index_layouts [where img = "example_image3D False" and row = 0 and col = 1
            and channel = 1 and v = 200 and slice = 1, OF example_image3D_ok]
    by (simp add: d)
qed

text \<open>
  Distinct coordinates in range have distinct offsets in either layout, so a write
  leaves every other pixel as it was: the two layouts hold the same logical image.
\<close>

lemma radix_inj:
  fixes a b a' b' B :: int
  assumes "0 \<le> b" "b < B" "0 \<le> b'" "b' < B" "a * B + b = a' * B + b'"
  shows "a = a' \<and> b = b'"
proof -
  have "(a * B + b) div B = a" using assms(1,2) by (intro int_div_pos_eq [of _ B a b]) simp_all
  moreover have "(a' * B + b') div B = a'"
    using assms(3,4) by (intro int_div_pos_eq [of _ B a' b']) simp_all
  ultimately have "a = a'" using assms(5) by simp
  then show ?thesis using assms(5) by simp
qed

lemma ImageRef_index_inj:
  assumes r: "0 \<le> row" "row < GenericImageRef_rows img" "0 \<le> row'" "row' < GenericImageRef_rows img"
    and c: "0 \<le> col" "col < GenericImageRef_cols img" "0 \<le> col'" "col' < GenericImageRef_cols img"
    and ch: "0 \<le> channel" "channel < channels img" "0 \<le> channel'" "channel' < channels img"
    and eq: "ImageRef_index img row col channel = ImageRef_index img row' col' channel'"
  shows "row = row' \<and> col = col' \<and> channel = channel'"
proof (cases "interleavedQ img")
  case True
  let ?C = "GenericImageRef_cols img" and ?N = "channels img"
  have "(row * ?C + col) * ?N + channel = (row' * ?C + col') * ?N + channel'"
    using eq True by (simp add: ImageRef_index_def algebra_simps)
  from radix_inj [OF ch(1,2,3,4) this]
  have a: "row * ?C + col = row' * ?C + col'" and b: "channel = channel'" by simp_all
  from radix_inj [OF c(1,2,3,4) a] b show ?thesis by simp
next
  case False
  let ?C = "GenericImageRef_cols img" and ?R = "GenericImageRef_rows img"
  have "(channel * ?R + row) * ?C + col = (channel' * ?R + row') * ?C + col'"
    using eq False by (simp add: ImageRef_index_def algebra_simps)
  from radix_inj [OF c(1,2,3,4) this]
  have a: "channel * ?R + row = channel' * ?R + row'" and b: "col = col'" by simp_all
  from radix_inj [OF r(1,2,3,4) a] b show ?thesis by simp
qed

lemma ImageRef_set_get_other:
  assumes r: "0 \<le> row" "row < GenericImageRef_rows img" "0 \<le> row'" "row' < GenericImageRef_rows img"
    and c: "0 \<le> col" "col < GenericImageRef_cols img" "0 \<le> col'" "col' < GenericImageRef_cols img"
    and ch: "0 \<le> channel" "channel < channels img" "0 \<le> channel'" "channel' < channels img"
    and other: "(row', col', channel') \<noteq> (row, col, channel)"
    and set: "ImageRef_set img row col channel v = Inr img'"
  shows "ImageRef_get img' row' col' channel' = ImageRef_get img row' col' channel'"
proof -
  have ne: "ImageRef_index img row' col' channel' \<noteq> ImageRef_index img row col channel"
    using ImageRef_index_inj [OF r(3,4,1,2) c(3,4,1,2) ch(3,4,1,2)] other by auto
  have i: "ImageRef_index img' row' col' channel' = ImageRef_index img row' col' channel'"
    using set by (auto simp: ImageRef_set_def pixel_write_def ImageRef_index_def interleavedQ_def
        channels_def GenericImageRef_rows_def GenericImageRef_cols_def split: if_splits)
  have "nat (ImageRef_index img row' col' channel') \<noteq> nat (ImageRef_index img row col channel)"
    if "0 \<le> ImageRef_index img row' col' channel'" "0 \<le> ImageRef_index img row col channel"
    using ne that by simp
  then show ?thesis
    using set unfolding ImageRef_get_def i
    by (auto simp: ImageRef_set_def pixel_write_def pixel_read_def split: if_splits)
qed

text \<open>
  C8, evaluated where the code departs from it. For the interleaved 2-by-2 image with
  two channels, the stride-scaled difference of \<open>pixelEnd(0)\<close> and \<open>pixelBegin(0)\<close> is
  \<open>channelSize()\<close>, but \<open>operator-\<close> does not return it, and no relational operator
  returns its comparison: each body ends without a \<open>return\<close>.
\<close>

theorem pixel_iterator_operators_return_nothing:
  "pixel_iterator_minus (pixelEnd (example_image True) 0) (pixelBegin (example_image True) 0)
     = Inl UndefinedBehaviour
   \<and> (ptr (pixelEnd (example_image True) 0) - ptr (pixelBegin (example_image True) 0))
        sdiv step (pixelEnd (example_image True) 0) = channelSize (example_image True)
   \<and> pixel_iterator_less (pixelBegin (example_image True) 0) (pixelEnd (example_image True) 0)
     = Inl UndefinedBehaviour
   \<and> pixel_iterator_greater (pixelEnd (example_image True) 0) (pixelBegin (example_image True) 0)
     = Inl UndefinedBehaviour
   \<and> pixel_iterator_less_eq (pixelBegin (example_image True) 0) (pixelEnd (example_image True) 0)
     = Inl UndefinedBehaviour
   \<and> pixel_iterator_greater_eq (pixelEnd (example_image True) 0) (pixelBegin (example_image True) 0)
     = Inl UndefinedBehaviour"
  by (simp add: pixel_iterator_minus_def pixel_iterator_less_def pixel_iterator_greater_def
      pixel_iterator_less_eq_def pixel_iterator_greater_eq_def pixelEnd_def pixelBegin_def
      pixel_iterator_plus_def example_image_def interleavedQ_def channels_def channelSize_def
      slices_def GenericImageRef_rows_def GenericImageRef_cols_def signed_divide_int_def)

end
